theory Spec2Isabelle
  imports Complex_Main "HOL-Library.Multiset"
begin

section \<open>LipidDyn: order parameters and 2D density maps (\<^verbatim>\<open>LipidDyn/core.py\<close>)\<close>

text \<open>
  The development embeds the numerical core of \<^verbatim>\<open>src/LipidDyn/core.py\<close>:
  the class \<^verbatim>\<open>OrderParameter\<close> with \<^verbatim>\<open>parse_op_input\<close>, and the class
  \<^verbatim>\<open>Density\<close> with \<^verbatim>\<open>dmap_multiprocessing\<close>.

  Conventions of the embedding.
  \<^item> A Python exception is a value \<open>Inl e\<close> of a sum type, a normal return is \<open>Inr v\<close>.
  \<^item> A finite floating-point number is idealised as the real it stands for; rounding
    error is not modelled. The non-finite floats (\<^verbatim>\<open>inf\<close>, \<^verbatim>\<open>-inf\<close>,
    \<^verbatim>\<open>nan\<close>), which numpy produces instead of raising when it divides by zero,
    are one extra value \<open>NonFin\<close>: every operation used here gives a non-finite result
    on a non-finite argument.
  \<^item> Text printed by the code is returned as a list of diagnostics.
\<close>

subsection \<open>Exceptions and floats\<close>

datatype error =
    UserWarning_NotString         \<comment> \<open>"provided name is not a string"\<close>
  | RuntimeError_EmptyName        \<comment> \<open>"provided name is empty"\<close>
  | UserWarning_ArgCount nat      \<comment> \<open>"Number of optional positional arguments is ..."\<close>
  | UserWarning_BondLength string string int real
      \<comment> \<open>"Atomic distance for atoms at1 and at2 in residue no. resnr is suspiciously long: d"\<close>
  | IndexError
  | TypeError
  | ValueError
  | OverflowError
  | ZeroDivisionError
  | UnboundLocalError

datatype npfloat = Fin real | NonFin

fun np_lift2 :: "(real \<Rightarrow> real \<Rightarrow> real) \<Rightarrow> npfloat \<Rightarrow> npfloat \<Rightarrow> npfloat" where
  "np_lift2 f (Fin a) (Fin b) = Fin (f a b)"
| "np_lift2 f _ _ = NonFin"

fun np_map :: "(real \<Rightarrow> real) \<Rightarrow> npfloat \<Rightarrow> npfloat" where
  "np_map f (Fin a) = Fin (f a)"
| "np_map f NonFin = NonFin"

definition np_add :: "npfloat \<Rightarrow> npfloat \<Rightarrow> npfloat" where
  "np_add = np_lift2 (+)"

text \<open>numpy's true division of finite numbers: a zero divisor gives \<^verbatim>\<open>inf\<close> or
  \<^verbatim>\<open>nan\<close> and a warning, never an exception.\<close>

definition np_divide :: "real \<Rightarrow> real \<Rightarrow> npfloat" where
  "np_divide a b = (if b = 0 then NonFin else Fin (a / b))"

fun np_div :: "npfloat \<Rightarrow> real \<Rightarrow> npfloat" where
  "np_div (Fin a) b = np_divide a b"
| "np_div NonFin b = NonFin"

text \<open>Python's \<^verbatim>\<open>int(x)\<close> on a finite float truncates towards zero.\<close>

definition py_int :: "real \<Rightarrow> int" where
  "py_int x = (if 0 \<le> x then \<lfloor>x\<rfloor> else \<lceil>x\<rceil>)"

text \<open>Python 3's \<^verbatim>\<open>round(x)\<close> and numpy's \<^verbatim>\<open>rint\<close>: to the nearest integer,
  a tie to the even neighbour.\<close>

definition py_round :: "real \<Rightarrow> int" where
  "py_round x =
     (let f = \<lfloor>x\<rfloor>; d = x - of_int f
      in if d < 1 / 2 then f
         else if 1 / 2 < d then f + 1
         else if even f then f else f + 1)"

text \<open>\<^verbatim>\<open>math.copysign(1.0, x)\<close>; the negative zero of the floats is not modelled.\<close>

definition copysign1 :: "real \<Rightarrow> real" where
  "copysign1 x = (if 0 \<le> x then 1 else - 1)"

subsection \<open>Atoms\<close>

type_synonym vec3 = "real \<times> real \<times> real"

definition vx :: "vec3 \<Rightarrow> real" where "vx v = fst v"
definition vy :: "vec3 \<Rightarrow> real" where "vy v = fst (snd v)"
definition vz :: "vec3 \<Rightarrow> real" where "vz v = snd (snd v)"

definition vsub :: "vec3 \<Rightarrow> vec3 \<Rightarrow> vec3" where
  "vsub a b = (vx a - vx b, vy a - vy b, vz a - vz b)"

text \<open>\<^verbatim>\<open>np.square(vec).sum()\<close>\<close>

definition square_sum :: "vec3 \<Rightarrow> real" where
  "square_sum v = vx v * vx v + vy v * vy v + vz v * vz v"

record atom =
  position :: vec3
  aname :: string
  resid :: int

text \<open>\<^verbatim>\<open>atoms[i]\<close> on the atoms of one residue.\<close>

definition atom_at :: "atom list \<Rightarrow> nat \<Rightarrow> error + atom" where
  "atom_at atoms i = (if i < length atoms then Inr (atoms ! i) else Inl IndexError)"

subsection \<open>\<^verbatim>\<open>OrderParameter.calc_OP\<close>\<close>

definition bond_len_max :: real where
  "bond_len_max = 1.5"

definition bond_len_max_sq :: real where
  "bond_len_max_sq = bond_len_max * bond_len_max"

definition calc_OP :: "atom list \<Rightarrow> error + npfloat" where
  "calc_OP atoms =
     (case atom_at atoms 1 of
        Inl e \<Rightarrow> Inl e
      | Inr a1 \<Rightarrow>
     (case atom_at atoms 0 of
        Inl e \<Rightarrow> Inl e
      | Inr a0 \<Rightarrow>
          let vec = vsub (position a1) (position a0);
              d2 = square_sum vec
          in if d2 > bond_len_max_sq
             then Inl (UserWarning_BondLength (aname a0) (aname a1) (resid a0) (sqrt d2))
             else let cos2 = np_divide (vz vec * vz vec) d2;
                      S = np_map (\<lambda>c. 0.5 * (3.0 * c - 1.0)) cos2
                  in Inr S))"

text \<open>The two atoms of a bond, the first at \<open>p\<close> and the second displaced by \<open>v\<close>.\<close>

definition bond :: "string \<Rightarrow> string \<Rightarrow> int \<Rightarrow> vec3 \<Rightarrow> vec3 \<Rightarrow> atom list" where
  "bond at1 at2 resnr p v =
     [\<lparr>position = p, aname = at1, resid = resnr\<rparr>,
      \<lparr>position = (vx p + vx v, vy p + vy v, vz p + vz v), aname = at2, resid = resnr\<rparr>]"

subsection \<open>\<^verbatim>\<open>OrderParameter.calc_angle\<close>\<close>

datatype diagnostic =
  CosineTooLarge real  \<comment> \<open>"Cosine is too large = cos --> truncating it to +/-1.0"\<close>

text \<open>\<^verbatim>\<open>math.acos\<close> raises \<^verbatim>\<open>ValueError\<close> (math domain error) outside \<open>[-1, 1]\<close>.\<close>

definition math_acos :: "real \<Rightarrow> error + real" where
  "math_acos x = (if x < - 1 \<or> 1 < x then Inl ValueError else Inr (arccos x))"

definition math_degrees :: "real \<Rightarrow> real" where
  "math_degrees x = x * (180 / pi)"

text \<open>The \<^verbatim>\<open>try\<close> / \<^verbatim>\<open>except ValueError\<close> block of \<^verbatim>\<open>calc_angle\<close>, on a finite
  cosine. When the handler runs and its test fails, \<^verbatim>\<open>angle\<close> is unbound at the
  \<^verbatim>\<open>return\<close>.\<close>

definition angle_conversion :: "real \<Rightarrow> diagnostic list \<times> (error + real)" where
  "angle_conversion cosine =
     (case math_acos cosine of
        Inr a \<Rightarrow> ([], Inr (math_degrees a))
      | Inl e \<Rightarrow>
          if e = ValueError then
            if \<bar>cosine\<bar> \<ge> 1.0 then
              (case math_acos (copysign1 cosine) of
                 Inr a \<Rightarrow> ([CosineTooLarge cosine], Inr (math_degrees a))
               | Inl e' \<Rightarrow> ([CosineTooLarge cosine], Inl e'))
            else ([], Inl UnboundLocalError)
          else ([], Inl e))"

text \<open>A zero-length vector gives \<^verbatim>\<open>0/0 = nan\<close>, and \<^verbatim>\<open>math.acos(nan)\<close> is
  \<^verbatim>\<open>nan\<close> without an exception.\<close>

definition calc_angle :: "atom list \<Rightarrow> real \<Rightarrow> diagnostic list \<times> (error + npfloat)" where
  "calc_angle atoms z_dim =
     (case atom_at atoms 1 of
        Inl e \<Rightarrow> ([], Inl e)
      | Inr a1 \<Rightarrow>
     (case atom_at atoms 0 of
        Inl e \<Rightarrow> ([], Inl e)
      | Inr a0 \<Rightarrow>
          let vec = vsub (position a1) (position a0);
              d = sqrt (square_sum vec);
              cosine = np_divide (vz vec) d;
              cosine = np_map (\<lambda>c. c * copysign1 (vz (position a0) - z_dim * 0.5)) cosine
          in (case cosine of
                NonFin \<Rightarrow> ([], Inr NonFin)
              | Fin c \<Rightarrow> (case angle_conversion c of (out, r) \<Rightarrow> (out, map_sum id Fin r)))))"

subsection \<open>\<^verbatim>\<open>OrderParameter.__init__\<close>\<close>

datatype pyval =
    Str string
  | Float npfloat
  | FloatList "npfloat list"
  | Series "npfloat list list"
  | NoneVal

record OrderParameter =
  name :: pyval
  resname :: pyval
  atAname :: pyval
  atBname :: pyval
  avg :: pyval
  means :: pyval
  std :: pyval
  stem :: pyval
  traj :: "npfloat list list"

text \<open>\<^verbatim>\<open>self.__dict__\<close> at the validation loop: the attributes in the order
  \<^verbatim>\<open>__init__\<close> has assigned them, each with its value.\<close>

definition OrderParameter_dict :: "OrderParameter \<Rightarrow> (string \<times> pyval) list" where
  "OrderParameter_dict self =
     [(''name'', name self), (''resname'', resname self),
      (''atAname'', atAname self), (''atBname'', atBname self),
      (''avg'', avg self), (''means'', means self), (''std'', std self),
      (''stem'', stem self), (''traj'', Series (traj self))]"

text \<open>The whitespace of \<^verbatim>\<open>str.strip\<close> and \<^verbatim>\<open>str.split\<close>, for ASCII text.\<close>

definition is_space :: "char \<Rightarrow> bool" where
  "is_space c = (c \<in> set [CHR '' '', CHR 0x09, CHR 0x0A, CHR 0x0B, CHR 0x0C, CHR 0x0D,
                           CHR 0x1C, CHR 0x1D, CHR 0x1E, CHR 0x1F])"

definition strip :: "string \<Rightarrow> string" where
  "strip s = rev (dropWhile is_space (rev (dropWhile is_space s)))"

text \<open>The body of \<^verbatim>\<open>for field in ...\<close>: \<^verbatim>\<open>isinstance(field, str)\<close>, then
  \<^verbatim>\<open>field.strip()\<close>.\<close>

fun check_fields :: "pyval list \<Rightarrow> error option" where
  "check_fields [] = None"
| "check_fields (Str s # rest) =
     (if strip s = [] then Some RuntimeError_EmptyName else check_fields rest)"
| "check_fields (_ # rest) = Some UserWarning_NotString"

text \<open>Iterating over a dictionary yields its keys: \<^verbatim>\<open>for field in self.__dict__\<close>
  binds \<^verbatim>\<open>field\<close> to the attribute names.\<close>

definition iter_dict :: "(string \<times> pyval) list \<Rightarrow> pyval list" where
  "iter_dict d = map (\<lambda>kv. Str (fst kv)) d"

definition OrderParameter_init ::
    "pyval \<Rightarrow> pyval \<Rightarrow> pyval \<Rightarrow> pyval \<Rightarrow> pyval list \<Rightarrow> error + OrderParameter" where
  "OrderParameter_init name' resname' atom_A_name atom_B_name args =
     (let self = \<lparr>name = name', resname = resname', atAname = atom_A_name,
                  atBname = atom_B_name, avg = NoneVal, means = NoneVal, std = NoneVal,
                  stem = NoneVal, traj = []\<rparr>
      in case check_fields (iter_dict (OrderParameter_dict self)) of
           Some e \<Rightarrow> Inl e
         | None \<Rightarrow>
             if length args = 2 then Inr (self\<lparr>avg := args ! 0, std := args ! 1\<rparr>)
             else if length args = 3
               then Inr (self\<lparr>avg := args ! 0, std := args ! 1, stem := args ! 2\<rparr>)
             else if length args \<noteq> 0 then Inl (UserWarning_ArgCount (length args))
             else Inr self)"

text \<open>The call \<^verbatim>\<open>OrderParameter(*items)\<close>: fewer than four positional arguments is a
  \<^verbatim>\<open>TypeError\<close> of the call itself.\<close>

fun OrderParameter_call :: "pyval list \<Rightarrow> error + OrderParameter" where
  "OrderParameter_call (a # b # c # d # args) = OrderParameter_init a b c d args"
| "OrderParameter_call _ = Inl TypeError"

subsection \<open>\<^verbatim>\<open>parse_op_input\<close>\<close>

text \<open>\<^verbatim>\<open>line.split()\<close>: the maximal runs of non-whitespace characters.\<close>

fun split_acc :: "string \<Rightarrow> string \<Rightarrow> string list" where
  "split_acc tok [] = (if tok = [] then [] else [rev tok])"
| "split_acc tok (c # cs) =
     (if is_space c
      then (if tok = [] then split_acc [] cs else rev tok # split_acc [] cs)
      else split_acc (c # tok) cs)"

definition split :: "string \<Rightarrow> string list" where
  "split line = split_acc [] line"

definition startswith :: "string \<Rightarrow> string \<Rightarrow> bool" where
  "startswith line pre = (take (length pre) line = pre)"

text \<open>\<^verbatim>\<open>OrderedDict.__setitem__\<close>: a known key keeps its place, a new key goes last.\<close>

fun odict_set :: "('k \<times> 'v) list \<Rightarrow> 'k \<Rightarrow> 'v \<Rightarrow> ('k \<times> 'v) list" where
  "odict_set [] k v = [(k, v)]"
| "odict_set ((k', v') # kvs) k v =
     (if k' = k then (k', v) # kvs else (k', v') # odict_set kvs k v)"

text \<open>In \<^verbatim>\<open>ordPars[items[0]] = OrderParameter(*items)\<close> Python evaluates the right-hand
  side first, then the subscript \<^verbatim>\<open>items[0]\<close> of the target.\<close>

fun parse_lines ::
    "(string \<times> OrderParameter) list \<Rightarrow> string list
       \<Rightarrow> error + (string \<times> OrderParameter) list" where
  "parse_lines ordPars [] = Inr ordPars"
| "parse_lines ordPars (line # rest) =
     (if \<not> startswith line ''#'' then
        (let items = split line
         in case OrderParameter_call (map Str items) of
              Inl e \<Rightarrow> Inl e
            | Inr op \<Rightarrow>
                (case items of
                   [] \<Rightarrow> Inl IndexError
                 | k # _ \<Rightarrow> parse_lines (odict_set ordPars k op) rest))
      else parse_lines ordPars rest)"

definition parse_op_input :: "string list \<Rightarrow> error + (string \<times> OrderParameter) list" where
  "parse_op_input def_file = parse_lines [] def_file"

subsection \<open>\<^verbatim>\<open>OrderParameter.get_avg_std_stem_OP\<close>\<close>

text \<open>numpy's reductions of a one-dimensional array: \<^verbatim>\<open>sum\<close>, \<^verbatim>\<open>mean\<close> (the sum over
  the number of entries; \<^verbatim>\<open>nan\<close> for no entries) and \<^verbatim>\<open>std\<close> with its default
  \<^verbatim>\<open>ddof=0\<close>, which is \<^verbatim>\<open>sqrt(mean(abs(x - x.mean())**2))\<close>.\<close>

definition np_sum :: "npfloat list \<Rightarrow> npfloat" where
  "np_sum xs = foldl np_add (Fin 0) xs"

definition np_mean :: "npfloat list \<Rightarrow> npfloat" where
  "np_mean xs = np_div (np_sum xs) (real (length xs))"

definition np_std :: "npfloat list \<Rightarrow> npfloat" where
  "np_std xs =
     (let m = np_mean xs
      in np_map sqrt (np_mean (map (\<lambda>x. np_map (\<lambda>y. \<bar>y\<bar> * \<bar>y\<bar>) (np_lift2 (-) x m)) xs)))"

text \<open>\<^verbatim>\<open>np.mean(a, axis=0)\<close> of a two-dimensional array with rows \<open>row # rows\<close>: the
  mean of every column.\<close>

definition np_mean_axis0 :: "npfloat list list \<Rightarrow> npfloat list" where
  "np_mean_axis0 a =
     map (\<lambda>j. np_mean (map (\<lambda>row. row ! j) a)) [0..<length (hd a)]"

text \<open>The series \<^verbatim>\<open>self.traj\<close> is a list of frames, each the list of the residues'
  values. An empty series makes \<^verbatim>\<open>np.mean(self.traj, axis=0)\<close> a scalar, on which
  \<^verbatim>\<open>len\<close> raises \<^verbatim>\<open>TypeError\<close>; frames of different lengths make no array
  (\<^verbatim>\<open>ValueError\<close>). The property assigns \<^verbatim>\<open>self.means\<close> and returns the triple.\<close>

definition get_avg_std_stem_OP ::
    "OrderParameter \<Rightarrow> error + (OrderParameter \<times> npfloat \<times> npfloat \<times> npfloat)" where
  "get_avg_std_stem_OP self =
     (case traj self of
        [] \<Rightarrow> Inl TypeError
      | row # rows \<Rightarrow>
          if list_ex (\<lambda>r. length r \<noteq> length row) rows then Inl ValueError
          else let ms = np_mean_axis0 (traj self)
               in Inr (self\<lparr>means := FloatList ms\<rparr>,
                       np_mean (concat (traj self)),
                       np_std ms,
                       np_div (np_std ms) (sqrt (real (length ms)))))"

subsection \<open>The class \<^verbatim>\<open>Density\<close>\<close>

text \<open>A frame of the trajectory: the box lengths \<^verbatim>\<open>ts.dimensions[0..2]\<close>, the cell
  matrix \<^verbatim>\<open>ts.triclinic_dimensions\<close> and the position of every atom. Box lengths are
  lengths, not negative. A selection (an \<^verbatim>\<open>AtomGroup\<close>) is the list of its atoms'
  indices; its positions change with the frame.\<close>

type_synonym mat3 = "vec3 \<times> vec3 \<times> vec3"

record frame =
  dimensions :: vec3
  triclinic_dimensions :: mat3
  positions :: "nat \<Rightarrow> vec3"

definition vscale :: "real \<Rightarrow> vec3 \<Rightarrow> vec3" where
  "vscale k v = (vx v * k, vy v * k, vz v * k)"

definition mscale :: "mat3 \<Rightarrow> real \<Rightarrow> mat3" where
  "mscale m k = (case m of (r0, r1, r2) \<Rightarrow> (vscale k r0, vscale k r1, vscale k r2))"

text \<open>\<^verbatim>\<open>np.linalg.det\<close> of a 3 by 3 matrix.\<close>

definition det :: "mat3 \<Rightarrow> real" where
  "det m =
     (case m of (r0, r1, r2) \<Rightarrow>
        vx r0 * (vy r1 * vz r2 - vz r1 * vy r2)
        - vy r0 * (vx r1 * vz r2 - vz r1 * vx r2)
        + vz r0 * (vx r1 * vy r2 - vy r1 * vx r2))"

type_synonym grid = "npfloat list list"

record Density =
  universe :: "frame list"
  selection :: "nat list"
  n1 :: nat
  n2 :: nat

text \<open>\<^verbatim>\<open>Density.__init__\<close>: \<^verbatim>\<open>self.universe.trajectory[0]\<close> needs a first frame.\<close>

definition Density_init :: "frame list \<Rightarrow> nat list \<Rightarrow> error + Density" where
  "Density_init universe' selection' =
     (let bins = 0.02
      in case universe' of
           [] \<Rightarrow> Inl IndexError
         | ts # _ \<Rightarrow>
             Inr \<lparr>universe = universe', selection = selection',
                  n1 = nat (py_round ((vx (dimensions ts) * 0.1) / bins)),
                  n2 = nat (py_round ((vy (dimensions ts) * 0.1) / bins))\<rparr>)"

subsection \<open>\<^verbatim>\<open>Density.do2dgrid\<close>\<close>

definition np_zeros :: "nat \<Rightarrow> nat \<Rightarrow> grid" where
  "np_zeros k l = replicate k (replicate l (Fin 0))"

text \<open>An index along an axis of length \<open>n\<close>: a negative index counts from the end, an index
  outside \<open>[-n, n)\<close> raises \<^verbatim>\<open>IndexError\<close>.\<close>

definition np_index :: "nat \<Rightarrow> int \<Rightarrow> error + nat" where
  "np_index n i =
     (if 0 \<le> i \<and> i < int n then Inr (nat i)
      else if - int n \<le> i \<and> i < 0 then Inr (nat (int n + i))
      else Inl IndexError)"

text \<open>The two wrap-arounds of \<^verbatim>\<open>do2dgrid\<close> as the source has them: \<open>wrap_m1\<close> takes the
  fraction \<open>m1\<close>; \<open>wrap_m2\<close> takes the wrapped \<open>m1\<close> and the fraction \<open>m2\<close>, and its second
  test reads \<^verbatim>\<open>if m1 < 0\<close>.\<close>

definition wrap_m1 :: "real \<Rightarrow> real" where
  "wrap_m1 m1 =
     (let m1 = (if m1 \<ge> 1 then m1 - 1 else m1);
          m1 = (if m1 < 0 then m1 + 1 else m1)
      in m1)"

definition wrap_m2 :: "real \<Rightarrow> real \<Rightarrow> real" where
  "wrap_m2 m1 m2 =
     (let m2 = (if m2 \<ge> 1 then m2 - 1 else m2);
          m2 = (if m1 < 0 then m2 + 1 else m2)
      in m2)"

text \<open>The cell \<^verbatim>\<open>[int(m1*self.n1)][int(m2*self.n2)]\<close> of one atom. A zero box length
  makes the fraction non-finite, and \<^verbatim>\<open>int\<close> of a non-finite float raises
  (\<^verbatim>\<open>ValueError\<close> for \<^verbatim>\<open>nan\<close>, \<^verbatim>\<open>OverflowError\<close> for an infinity: here
  \<open>OverflowError\<close> stands for both). The row index is taken before the column
  index is converted.\<close>

definition atom_cell :: "Density \<Rightarrow> frame \<Rightarrow> vec3 \<Rightarrow> error + (nat \<times> nat)" where
  "atom_cell self ts pos =
     (case np_divide (vx pos * 0.1) (vx (dimensions ts) * 0.1) of
        NonFin \<Rightarrow> Inl OverflowError
      | Fin m1 \<Rightarrow>
          let m1 = wrap_m1 m1
          in (case np_index (n1 self) (py_int (m1 * real (n1 self))) of
                Inl e \<Rightarrow> Inl e
              | Inr i \<Rightarrow>
                  (case np_divide (vy pos * 0.1) (vy (dimensions ts) * 0.1) of
                     NonFin \<Rightarrow> Inl OverflowError
                   | Fin m2 \<Rightarrow>
                       let m2 = wrap_m2 m1 m2
                       in (case np_index (n2 self) (py_int (m2 * real (n2 self))) of
                             Inl e \<Rightarrow> Inl e
                           | Inr j \<Rightarrow> Inr (i, j)))))"

text \<open>\<^verbatim>\<open>grid[i][j] += invcellvol\<close>\<close>

definition grid_incr :: "grid \<Rightarrow> nat \<Rightarrow> nat \<Rightarrow> npfloat \<Rightarrow> grid" where
  "grid_incr g i j w = g[i := (g ! i)[j := np_add (g ! i ! j) w]]"

definition invcellvol :: "Density \<Rightarrow> frame \<Rightarrow> npfloat" where
  "invcellvol self ts =
     np_divide (real (n1 self * n2 self)) (det (mscale (triclinic_dimensions ts) 0.1))"

text \<open>The loop \<^verbatim>\<open>for atom in g\<close> and the loop \<^verbatim>\<open>for ts in trajectory\<close>.\<close>

fun add_atoms :: "Density \<Rightarrow> frame \<Rightarrow> npfloat \<Rightarrow> grid \<Rightarrow> nat list \<Rightarrow> error + grid" where
  "add_atoms self ts w g [] = Inr g"
| "add_atoms self ts w g (a # g') =
     (case atom_cell self ts (positions ts a) of
        Inl e \<Rightarrow> Inl e
      | Inr (i, j) \<Rightarrow> add_atoms self ts w (grid_incr g i j w) g')"

fun add_frames :: "Density \<Rightarrow> grid \<Rightarrow> frame list \<Rightarrow> error + grid" where
  "add_frames self g [] = Inr g"
| "add_frames self g (ts # trajectory) =
     (case add_atoms self ts (invcellvol self ts) g (selection self) of
        Inl e \<Rightarrow> Inl e
      | Inr g' \<Rightarrow> add_frames self g' trajectory)"

text \<open>The grid one call accumulates, and the call itself, which appends the grid to the
  shared list \<^verbatim>\<open>l_grids\<close>.\<close>

definition accumulate :: "Density \<Rightarrow> frame list \<Rightarrow> error + grid" where
  "accumulate self trajectory = add_frames self (np_zeros (n1 self) (n2 self)) trajectory"

definition do2dgrid :: "Density \<Rightarrow> frame list \<Rightarrow> grid list \<Rightarrow> error + grid list" where
  "do2dgrid self trajectory l_grids =
     (case accumulate self trajectory of
        Inl e \<Rightarrow> Inl e
      | Inr g \<Rightarrow> Inr (l_grids @ [g]))"

subsection \<open>\<^verbatim>\<open>Density.normalization\<close>\<close>

text \<open>Python's \<^verbatim>\<open>sum\<close> starts from the integer \<^verbatim>\<open>0\<close>: of no grid it is that
  integer, and \<^verbatim>\<open>0 + g\<close> is \<open>g\<close>. numpy adds two arrays of one shape entry by entry.\<close>

datatype summed = IntZero | Array grid

definition grid_add :: "grid \<Rightarrow> grid \<Rightarrow> grid" where
  "grid_add a b = map2 (map2 np_add) a b"

fun py_sum :: "grid list \<Rightarrow> summed" where
  "py_sum [] = IntZero"
| "py_sum (g # gs) = Array (foldl grid_add g gs)"

text \<open>\<^verbatim>\<open>np.insert(grid, 0, values, 0)\<close> on an array of \<open>ncols\<close> columns adds one row, and
  \<^verbatim>\<open>np.insert(grid, 0, values, 1)\<close> adds one column. The values are broadcast to the
  new row or column: they fit when there are as many as it has entries, or exactly
  one; otherwise numpy raises \<^verbatim>\<open>ValueError\<close>.\<close>

definition np_insert_row0 :: "nat \<Rightarrow> grid \<Rightarrow> npfloat list \<Rightarrow> error + grid" where
  "np_insert_row0 ncols g vals =
     (if length vals = ncols then Inr (vals # g)
      else if length vals = 1 then Inr (replicate ncols (hd vals) # g)
      else Inl ValueError)"

definition np_insert_col0 :: "grid \<Rightarrow> npfloat list \<Rightarrow> error + grid" where
  "np_insert_col0 g vals =
     (if length vals = length g then Inr (map2 (#) vals g)
      else if length vals = 1 then Inr (map ((#) (hd vals)) g)
      else Inl ValueError)"

text \<open>\<^verbatim>\<open>np.around(x, decimals=5)\<close> is \<^verbatim>\<open>rint(x * 10**5) / 10**5\<close>.\<close>

definition around5 :: "real \<Rightarrow> real" where
  "around5 x = real_of_int (py_round (x * 10 ^ 5)) / 10 ^ 5"

text \<open>\<^verbatim>\<open>final_grid\<close> is what \<^verbatim>\<open>sum\<close> returned: an array of shape \<open>(n1, n2)\<close> as
  \<^verbatim>\<open>do2dgrid\<close> builds it, or the integer \<^verbatim>\<open>0\<close>, which \<^verbatim>\<open>np.insert\<close> refuses.
  Without frames the box sums are still the integer \<^verbatim>\<open>0\<close> and \<^verbatim>\<open>box1/len(...)\<close>
  raises \<^verbatim>\<open>ZeroDivisionError\<close>. Both tick lists run over \<^verbatim>\<open>range(self.n1)\<close>.\<close>

definition normalization :: "Density \<Rightarrow> summed \<Rightarrow> error + grid" where
  "normalization self final_grid =
     (let trajectory = universe self;
          box1 = foldl (\<lambda>b ts. b + vx (dimensions ts) * 0.1) 0 trajectory;
          box2 = foldl (\<lambda>b ts. b + vy (dimensions ts) * 0.1) 0 trajectory
      in if length trajectory = 0 then Inl ZeroDivisionError
         else
           let box1 = box1 / real (length trajectory);
               box2 = box2 / real (length trajectory);
               tick_x = map (\<lambda>i. np_divide (real i * box1) (real (n1 self))) [0..<n1 self];
               tick_y = map (\<lambda>i. np_divide (real i * box2) (real (n2 self))) [0..<n1 self]
           in (case final_grid of
                 IntZero \<Rightarrow> Inl ValueError
               | Array g \<Rightarrow>
                   let grid = map (map (\<lambda>c. np_div c (real (length trajectory)))) g
                   in (case np_insert_row0 (n2 self) grid tick_x of
                         Inl e \<Rightarrow> Inl e
                       | Inr grid \<Rightarrow>
                           (case np_insert_col0 grid (Fin 0 # tick_y) of
                              Inl e \<Rightarrow> Inl e
                            | Inr grid \<Rightarrow> Inr (map (map (np_map around5)) grid)))))"

subsection \<open>\<^verbatim>\<open>dmap_multiprocessing\<close>\<close>

text \<open>\<^verbatim>\<open>range(0, stop, step)\<close> for a step that is not negative: step \<^verbatim>\<open>0\<close> raises
  \<^verbatim>\<open>ValueError\<close>. The slice \<^verbatim>\<open>xs[a:b]\<close> for \<open>a \<le> b\<close> stops at the end of the list.\<close>

definition py_range :: "nat \<Rightarrow> nat \<Rightarrow> error + nat list" where
  "py_range stop step =
     (if step = 0 then Inl ValueError
      else Inr (map (\<lambda>k. k * step) [0..<(stop + step - 1) div step]))"

definition slice :: "'a list \<Rightarrow> nat \<Rightarrow> nat \<Rightarrow> 'a list" where
  "slice xs a b = take (b - a) (drop a xs)"

text \<open>The list \<^verbatim>\<open>chunk\<close>. The number of cores \<open>ncore\<close> is a count; \<^verbatim>\<open>ncore = 0\<close> divides
  by zero.\<close>

definition frame_chunks :: "'a list \<Rightarrow> nat \<Rightarrow> error + 'a list list" where
  "frame_chunks trajectory ncore =
     (if ncore = 0 then Inl ZeroDivisionError
      else let step = nat (py_int (real (length trajectory) / real ncore))
           in (case py_range (length trajectory) step of
                 Inl e \<Rightarrow> Inl e
               | Inr xs \<Rightarrow> Inr (map (\<lambda>x. slice trajectory x (x + step)) xs)))"

text \<open>One process per chunk runs \<^verbatim>\<open>do2dgrid\<close> on the shared list, and the parent joins
  them all. An exception in a process ends that process only: its grid is never appended.
  The processes append in the order they finish; \<open>run_workers\<close> is the schedule in which
  they finish in the order they were started.\<close>

fun run_workers :: "Density \<Rightarrow> frame list list \<Rightarrow> grid list \<Rightarrow> grid list" where
  "run_workers dmap [] final_grid = final_grid"
| "run_workers dmap (slices # chunk) final_grid =
     (case do2dgrid dmap slices final_grid of
        Inl e \<Rightarrow> run_workers dmap chunk final_grid
      | Inr l \<Rightarrow> run_workers dmap chunk l)"

text \<open>The result of \<^verbatim>\<open>dmap_multiprocessing\<close>, with the number of processes it has
  started and the shared list of partial grids.\<close>

record dmap_run =
  processes :: nat
  l_grids :: "grid list"
  outcome :: "error + grid"

definition dmap_multiprocessing :: "frame list \<Rightarrow> nat list \<Rightarrow> nat \<Rightarrow> dmap_run" where
  "dmap_multiprocessing u selection' ncore =
     (case Density_init u selection' of
        Inl e \<Rightarrow> \<lparr>processes = 0, l_grids = [], outcome = Inl e\<rparr>
      | Inr dmap \<Rightarrow>
          (case frame_chunks u ncore of
             Inl e \<Rightarrow> \<lparr>processes = 0, l_grids = [], outcome = Inl e\<rparr>
           | Inr chunk \<Rightarrow>
               let final_grid = run_workers dmap chunk []
               in \<lparr>processes = length chunk, l_grids = final_grid,
                   outcome = normalization dmap (py_sum final_grid)\<rparr>))"

subsection \<open>The wrap-around as the specification words it\<close>

text \<open>"Wrap into \<open>[0, 1)\<close> by subtracting 1 if \<open>m \<ge> 1\<close> or adding 1 if \<open>m < 0\<close>", each axis
  with its own fraction, and the cell \<open>[floor(m1*n1)][floor(m2*n2)]\<close>.\<close>

definition spec_wrap :: "real \<Rightarrow> real" where
  "spec_wrap m = (if m \<ge> 1 then m - 1 else if m < 0 then m + 1 else m)"

definition spec_cell :: "nat \<Rightarrow> nat \<Rightarrow> real \<Rightarrow> real \<Rightarrow> int \<times> int" where
  "spec_cell k l m1 m2 = (\<lfloor>spec_wrap m1 * real k\<rfloor>, \<lfloor>spec_wrap m2 * real l\<rfloor>)"

definition spec_atom_cell :: "Density \<Rightarrow> frame \<Rightarrow> vec3 \<Rightarrow> int \<times> int" where
  "spec_atom_cell self ts pos =
     spec_cell (n1 self) (n2 self)
       ((vx pos * 0.1) / (vx (dimensions ts) * 0.1))
       ((vy pos * 0.1) / (vy (dimensions ts) * 0.1))"

subsection \<open>The reduction as the specification words it\<close>

text \<open>For a series \<open>vals\<close> of frames with \<open>R\<close> residues each: "\<open>avg\<close> = grand mean over all
  frame by residue values; \<open>means\<close> = per-residue mean across frames; \<open>std\<close> = standard
  deviation of \<open>means\<close> (population, not sample-corrected)".\<close>

definition spec_avg :: "real list list \<Rightarrow> nat \<Rightarrow> real" where
  "spec_avg vals R = (\<Sum>f<length vals. \<Sum>r<R. vals ! f ! r) / real (length vals * R)"

definition spec_means :: "real list list \<Rightarrow> nat \<Rightarrow> real list" where
  "spec_means vals R = map (\<lambda>r. (\<Sum>f<length vals. vals ! f ! r) / real (length vals)) [0..<R]"

definition spec_std :: "real list \<Rightarrow> real" where
  "spec_std ms =
     sqrt ((\<Sum>r<length ms. (ms ! r - (\<Sum>r<length ms. ms ! r) / real (length ms))\<^sup>2)
           / real (length ms))"

subsection \<open>The tick marks as the specification words them\<close>

text \<open>The run-averaged box lengths, in the working unit.\<close>

definition avg_box_x :: "Density \<Rightarrow> real" where
  "avg_box_x self =
     (\<Sum>ts\<leftarrow>universe self. vx (dimensions ts) * 0.1) / real (length (universe self))"

definition avg_box_y :: "Density \<Rightarrow> real" where
  "avg_box_y self =
     (\<Sum>ts\<leftarrow>universe self. vy (dimensions ts) * 0.1) / real (length (universe self))"

subsection \<open>The shape of a grid\<close>

definition grid_shape :: "nat \<Rightarrow> nat \<Rightarrow> grid \<Rightarrow> bool" where
  "grid_shape k l g = (length g = k \<and> list_all (\<lambda>row. length row = l) g)"

subsection \<open>Example data\<close>

text \<open>A frame with an orthogonal box of the lengths \<open>x\<close>, \<open>y\<close> and 1, in which every atom
  is at \<open>p\<close>; a box of 0.4 by 0.4 gives a grid of 2 by 2 cells.\<close>

definition box_frame :: "real \<Rightarrow> real \<Rightarrow> vec3 \<Rightarrow> frame" where
  "box_frame x y p =
     \<lparr>dimensions = (x, y, 1), triclinic_dimensions = ((x, 0, 0), (0, y, 0), (0, 0, 1)),
      positions = (\<lambda>a. p)\<rparr>"

definition frame_a :: frame where
  "frame_a = box_frame 0.4 0.4 (0.1, - 0.1, 0)"

definition frame_b :: frame where
  "frame_b = box_frame 0.4 0.4 (0.3, 0.1, 0)"

definition density_2x2 :: "frame list \<Rightarrow> Density" where
  "density_2x2 u = \<lparr>universe = u, selection = [0], n1 = 2, n2 = 2\<rparr>"

text \<open>A box of 0.4 by 0.6 gives a grid of 2 by 3 cells.\<close>

definition frame_2x3 :: frame where
  "frame_2x3 = box_frame 0.4 0.6 (0, 0, 0)"

definition density_2x3 :: Density where
  "density_2x3 = \<lparr>universe = [frame_2x3], selection = [0], n1 = 2, n2 = 3\<rparr>"

definition two_boxes :: "frame list" where
  "two_boxes = [box_frame 0.4 0.4 (0, 0, 0), box_frame 0.6 0.8 (0, 0, 0)]"

definition series_2x2 :: OrderParameter where
  "series_2x2 =
     \<lparr>name = Str ''beta1'', resname = Str ''POPC'', atAname = Str ''C12'',
      atBname = Str ''H12A'', avg = NoneVal, means = NoneVal, std = NoneVal,
      stem = NoneVal, traj = [[Fin 2, Fin (- 2)], [Fin 0, Fin 0]]\<rparr>"

section \<open>Properties\<close>

subsection \<open>The order parameter of one bond\<close>

lemma calc_OP_pair:
  "calc_OP (a0 # a1 # rest) =
     (let vec = vsub (position a1) (position a0); d2 = square_sum vec
      in if d2 > 2.25
         then Inl (UserWarning_BondLength (aname a0) (aname a1) (resid a0) (sqrt d2))
         else Inr (np_map (\<lambda>c. 0.5 * (3 * c - 1)) (np_divide (vz vec * vz vec) d2)))"
  by (simp add: calc_OP_def atom_at_def bond_len_max_sq_def bond_len_max_def Let_def)

text \<open>A bond of length zero is below the guard: the division \<^verbatim>\<open>0/0\<close> gives \<^verbatim>\<open>nan\<close>.\<close>

lemma calc_OP_zero_vector:
  "square_sum (vsub (position a1) (position a0)) = 0 \<Longrightarrow> calc_OP (a0 # a1 # rest) = Inr NonFin"
  by (simp add: calc_OP_pair np_divide_def Let_def)

text \<open>
  C4, as the claim has it, at the vector \<open>(0, 0, 2)\<close>: the claim gives \<open>S = 1.0\<close>, but
  \<open>d2 = 4\<close> is above \<open>2.25\<close> and \<open>calc_OP\<close> raises the bond-length error with distance 2.
\<close>

theorem calc_OP_normal_vector_2_raises:
  "calc_OP (bond ''C12'' ''H12A'' 1 (0, 0, 0) (0, 0, 2))
     = Inl (UserWarning_BondLength ''C12'' ''H12A'' 1 2)
   \<and> calc_OP (bond ''C12'' ''H12A'' 1 (0, 0, 0) (0, 0, 2)) \<noteq> Inr (Fin 1)"
  by (simp add: bond_def calc_OP_pair vsub_def square_sum_def vx_def vy_def vz_def Let_def)

text \<open>
  C4 (amended). For the two atoms \<open>a0\<close>, \<open>a1\<close> of a residue, with \<open>vec\<close> the position of
  \<open>a1\<close> minus that of \<open>a0\<close> and \<open>d2\<close> its squared length: if \<open>d2 > 2.25\<close> then \<open>calc_OP\<close>
  raises the bond-length error carrying the two atom names, the residue id and the
  distance \<open>sqrt d2\<close>; if \<open>d2 \<le> 2.25\<close> (and \<open>d2\<close> is not zero) it returns
  \<open>S = 0.5 * (3 * vec_z\<^sup>2 / d2 - 1)\<close>. So the vector \<open>(0, 0, 1)\<close> yields \<open>1.0\<close> and
  \<open>(1, 0, 0)\<close> yields \<open>-0.5\<close>, while \<open>(0, 0, 2)\<close> raises.
\<close>

theorem calc_OP_bond_length:
  assumes "vec = vsub (position a1) (position a0)" and "d2 = square_sum vec"
  shows "(d2 > 2.25 \<longrightarrow>
            calc_OP (a0 # a1 # rest)
              = Inl (UserWarning_BondLength (aname a0) (aname a1) (resid a0) (sqrt d2)))
       \<and> (d2 \<le> 2.25 \<and> d2 \<noteq> 0 \<longrightarrow>
            calc_OP (a0 # a1 # rest) = Inr (Fin (0.5 * (3 * (vz vec)\<^sup>2 / d2 - 1))))
       \<and> (vec = (0, 0, 1) \<longrightarrow> calc_OP (a0 # a1 # rest) = Inr (Fin 1))
       \<and> (vec = (1, 0, 0) \<longrightarrow> calc_OP (a0 # a1 # rest) = Inr (Fin (- 0.5)))
       \<and> (vec = (0, 0, 2) \<longrightarrow> (\<exists>e. calc_OP (a0 # a1 # rest) = Inl e))"
  using assms
  by (auto simp add: calc_OP_pair Let_def np_divide_def power2_eq_square square_sum_def
      vx_def vy_def vz_def)

theorem calc_OP_bond_length_witness:
  "calc_OP (bond ''C12'' ''H12A'' 1 (0, 0, 0) (0, 0, 1)) = Inr (Fin 1)
   \<and> calc_OP (bond ''C12'' ''H12A'' 1 (0, 0, 0) (1, 0, 0)) = Inr (Fin (- 0.5))
   \<and> calc_OP (bond ''C12'' ''H12A'' 1 (0, 0, 0) (0, 3, 4))
        = Inl (UserWarning_BondLength ''C12'' ''H12A'' 1 5)"
  using calc_OP_bond_length [of "(0,0,1)" "\<lparr>position = (0,0,1), aname = ''H12A'', resid = 1\<rparr>"
      "\<lparr>position = (0,0,0), aname = ''C12'', resid = 1\<rparr>" 1 "[]"]
    calc_OP_bond_length [of "(1,0,0)" "\<lparr>position = (1,0,0), aname = ''H12A'', resid = 1\<rparr>"
      "\<lparr>position = (0,0,0), aname = ''C12'', resid = 1\<rparr>" 1 "[]"]
    calc_OP_bond_length [of "(0,3,4)" "\<lparr>position = (0,3,4), aname = ''H12A'', resid = 1\<rparr>"
      "\<lparr>position = (0,0,0), aname = ''C12'', resid = 1\<rparr>" 25 "[]"]
  by (simp add: bond_def vsub_def square_sum_def vx_def vy_def vz_def)

subsection \<open>The angle conversion\<close>

lemma math_acos_1: "math_acos 1 = Inr 0" "math_acos (- 1) = Inr pi"
  by (simp_all add: math_acos_def)

text \<open>\<open>calc_angle\<close> passes every finite cosine to the conversion and returns its result.\<close>

lemma calc_angle_pair:
  "calc_angle (a0 # a1 # rest) z_dim =
     (let vec = vsub (position a1) (position a0)
      in case np_divide (vz vec) (sqrt (square_sum vec)) of
           NonFin \<Rightarrow> ([], Inr NonFin)
         | Fin c \<Rightarrow>
             (case angle_conversion (c * copysign1 (vz (position a0) - z_dim * 0.5)) of
                (out, r) \<Rightarrow> (out, map_sum id Fin r)))"
  by (simp add: calc_angle_def atom_at_def Let_def split: npfloat.splits)

text \<open>
  C6, as the claim has it, at the cosine \<open>1\<close>: its absolute value is at least 1, the
  result is 0 degrees, but \<^verbatim>\<open>math.acos\<close> accepts it, the handler does not run and no
  diagnostic is reported.
\<close>

theorem angle_conversion_one_reports_nothing: "angle_conversion 1 = ([], Inr 0)"
  by (simp add: angle_conversion_def math_acos_1 math_degrees_def)

text \<open>
  C6 (amended). For every cosine \<open>c\<close> with \<open>\<bar>c\<bar> \<ge> 1\<close> the angle conversion of
  \<open>calc_angle\<close> does not raise and returns 0 degrees for a positive and 180 degrees for
  a negative cosine. When \<open>\<bar>c\<bar> > 1\<close> it clamps the cosine to \<open>\<plusminus>1\<close> and reports the
  clamp as a diagnostic; when \<open>\<bar>c\<bar> = 1\<close> the inverse cosine succeeds at once and
  nothing is reported.
\<close>

theorem angle_conversion_clamp:
  "(1 < \<bar>c\<bar> \<longrightarrow>
      angle_conversion c = ([CosineTooLarge c], Inr (if 0 < c then 0 else 180)))
   \<and> (\<bar>c\<bar> = 1 \<longrightarrow> angle_conversion c = ([], Inr (if 0 < c then 0 else 180)))"
proof (intro conjI impI)
  assume big: "1 < \<bar>c\<bar>"
  then have "math_acos c = Inl ValueError"
    by (auto simp: math_acos_def)
  with big show "angle_conversion c = ([CosineTooLarge c], Inr (if 0 < c then 0 else 180))"
    by (auto simp: angle_conversion_def copysign1_def math_acos_1 math_degrees_def)
next
  assume "\<bar>c\<bar> = 1"
  then have "c = 1 \<or> c = - 1"
    by auto
  then show "angle_conversion c = ([], Inr (if 0 < c then 0 else 180))"
    by (auto simp: angle_conversion_def math_acos_1 math_degrees_def)
qed

theorem angle_conversion_clamp_witness:
  "angle_conversion 2 = ([CosineTooLarge 2], Inr 0)
   \<and> angle_conversion (- 1.5) = ([CosineTooLarge (- 1.5)], Inr 180)
   \<and> angle_conversion (- 1) = ([], Inr 180)"
  using angle_conversion_clamp [of 2] angle_conversion_clamp [of "- 1.5"]
    angle_conversion_clamp [of "- 1"]
  by simp

subsection \<open>Construction of an \<^verbatim>\<open>OrderParameter\<close>\<close>

lemma check_fields_keys: "check_fields (iter_dict (OrderParameter_dict self)) = None"
  by (simp add: iter_dict_def OrderParameter_dict_def strip_def is_space_def)

lemma init_accepts_any_names:
  "OrderParameter_init n r a b [] =
     Inr \<lparr>name = n, resname = r, atAname = a, atBname = b, avg = NoneVal, means = NoneVal,
          std = NoneVal, stem = NoneVal, traj = []\<rparr>"
  by (simp add: OrderParameter_init_def check_fields_keys Let_def)

text \<open>
  C3. The claim: an empty, blank or non-string identity field makes the construction
  raise. The code: the validation loop runs over the attribute names, never over the
  values, so the construction with an empty name, a blank atom name and a non-string
  atom name returns the object.
\<close>

theorem init_empty_name_constructs:
  "OrderParameter_init (Str '''') (Str ''POPC'') (Str ''   '') (Float (Fin 7)) [] =
     Inr \<lparr>name = Str '''', resname = Str ''POPC'', atAname = Str ''   '',
          atBname = Float (Fin 7), avg = NoneVal, means = NoneVal,
          std = NoneVal, stem = NoneVal, traj = []\<rparr>"
  by (simp add: OrderParameter_init_def check_fields_keys Let_def)

subsection \<open>Parsing the definitions\<close>

lemma split_acc_blank: "list_all is_space l \<Longrightarrow> split_acc [] l = []"
  by (induction l) simp_all

lemma hash_not_space: "\<not> is_space CHR ''#''"
  by (simp add: is_space_def)

lemma blank_not_comment: "list_all is_space l \<Longrightarrow> \<not> startswith l ''#''"
proof (cases l)
  case Nil
  then show ?thesis by (simp add: startswith_def)
next
  case (Cons c cs)
  assume "list_all is_space l"
  with Cons have "is_space c" by simp
  with hash_not_space have "c \<noteq> CHR ''#''" by blast
  with Cons show ?thesis by (simp add: startswith_def)
qed

lemma dropWhile_all: "(\<forall>x\<in>set (dropWhile P l). P x) = (\<forall>x\<in>set l. P x)"
  by (induction l) simp_all

lemma strip_blank: "strip l = [] \<longleftrightarrow> list_all is_space l"
  by (simp add: strip_def list_all_iff dropWhile_all)

lemma parse_lines_append:
  "parse_lines acc (pre @ rest) =
     (case parse_lines acc pre of Inl e \<Rightarrow> Inl e | Inr acc' \<Rightarrow> parse_lines acc' rest)"
  by (induction pre arbitrary: acc) (simp_all add: Let_def split: sum.splits list.splits)

lemma parse_lines_blank: "list_all is_space l \<Longrightarrow> parse_lines acc (l # post) = Inl TypeError"
  by (simp add: blank_not_comment split_def split_acc_blank)

text \<open>
  C9, as the claim has it, on a file whose second line is blank: the claim gives an
  \<^verbatim>\<open>IndexError\<close> from \<^verbatim>\<open>items[0]\<close>, but the right-hand side
  \<^verbatim>\<open>OrderParameter(*items)\<close> is evaluated first and the call without arguments raises
  \<^verbatim>\<open>TypeError\<close>.
\<close>

theorem parse_blank_line_is_TypeError:
  "parse_op_input [''beta1 POPC C12 H12A'', ''  '', ''beta2 POPC C12 H12B''] = Inl TypeError
   \<and> parse_op_input [''beta1 POPC C12 H12A'', ''  '', ''beta2 POPC C12 H12B'']
        \<noteq> Inl IndexError"
  by (simp add: parse_op_input_def startswith_def split_def is_space_def Let_def
      init_accepts_any_names)

text \<open>
  C9 (amended). A line that is blank (empty after stripping) does not start with \<open>#\<close>, and
  \<open>parse_op_input\<close> does not skip it: on every sequence of lines that holds such a line,
  after lines \<open>pre\<close> that parse, it raises \<^verbatim>\<open>TypeError\<close> (from the constructor call
  without arguments), and when \<open>pre\<close> itself fails it raises the error of \<open>pre\<close>. No
  mapping is returned either way.
\<close>

theorem parse_blank_line:
  assumes "strip l = []"
  shows "\<not> startswith l ''#''
    \<and> parse_op_input (pre @ l # post) =
       (case parse_op_input pre of Inl e \<Rightarrow> Inl e | Inr ordPars \<Rightarrow> Inl TypeError)"
proof -
  from assms have blank: "list_all is_space l"
    by (simp add: strip_blank)
  have "parse_lines [] (pre @ l # post) =
      (case parse_lines [] pre of Inl e \<Rightarrow> Inl e | Inr acc' \<Rightarrow> parse_lines acc' (l # post))"
    by (rule parse_lines_append)
  also have "\<dots> = (case parse_lines [] pre of Inl e \<Rightarrow> Inl e | Inr acc' \<Rightarrow> Inl TypeError)"
    by (simp only: parse_lines_blank [OF blank])
  finally show ?thesis
    using blank by (simp add: parse_op_input_def blank_not_comment)
qed

theorem parse_blank_line_witness:
  "parse_op_input ([''# name resname atomA atomB'', ''beta1 POPC C12 H12A'']
      @ [CHR 0x0A] # [''beta2 POPC C12 H12B'']) = Inl TypeError"
  using parse_blank_line [of "[CHR 0x0A]"
      "[''# name resname atomA atomB'', ''beta1 POPC C12 H12A'']" "[''beta2 POPC C12 H12B'']"]
  by (simp add: strip_def parse_op_input_def startswith_def split_def is_space_def Let_def
      init_accepts_any_names)

subsection \<open>The reduction of a series\<close>

lemma foldl_np_add_Fin: "foldl np_add (Fin a) (map Fin xs) = Fin (a + sum_list xs)"
  by (induction xs arbitrary: a) (simp_all add: np_add_def add.assoc)

lemma np_sum_Fin: "np_sum (map Fin xs) = Fin (sum_list xs)"
  by (simp add: np_sum_def foldl_np_add_Fin)

lemma np_mean_Fin: "xs \<noteq> [] \<Longrightarrow> np_mean (map Fin xs) = Fin (sum_list xs / real (length xs))"
  by (simp add: np_mean_def np_sum_Fin np_divide_def)

lemma sum_list_nth: "sum_list xs = (\<Sum>i<length xs. xs ! i)" for xs :: "real list"
  by (simp add: sum_list_sum_nth atLeast0LessThan)

lemma np_std_Fin: "ms \<noteq> [] \<Longrightarrow> np_std (map Fin ms) = Fin (spec_std ms)"
proof -
  assume ne: "ms \<noteq> []"
  let ?m = "sum_list ms / real (length ms)"
  have "map (\<lambda>x. np_map (\<lambda>y. \<bar>y\<bar> * \<bar>y\<bar>) (np_lift2 (-) x (Fin ?m))) (map Fin ms)
          = map Fin (map (\<lambda>x. (x - ?m)\<^sup>2) ms)"
    by (simp add: power2_eq_square)
  moreover have "map (\<lambda>x. (x - ?m)\<^sup>2) ms \<noteq> []"
    using ne by simp
  ultimately have "np_std (map Fin ms)
        = Fin (sqrt (sum_list (map (\<lambda>x. (x - ?m)\<^sup>2) ms) / real (length ms)))"
    using ne by (simp add: np_std_def np_mean_Fin Let_def del: map_map)
  moreover have "sum_list (map (\<lambda>x. (x - ?m)\<^sup>2) ms) = (\<Sum>r<length ms. (ms ! r - ?m)\<^sup>2)"
    by (simp add: sum_list_sum_nth atLeast0LessThan)
  ultimately show ?thesis
    by (simp add: spec_std_def sum_list_nth)
qed

lemma column_Fin:
  assumes "\<forall>fr\<in>set vals. length fr = R" and "j < R"
  shows "map (\<lambda>row. row ! j) (map (map Fin) vals) = map Fin (map (\<lambda>row. row ! j) vals)"
  using assms by simp

lemma column_sum: "sum_list (map (\<lambda>row. row ! j) vals) = (\<Sum>f<length vals. vals ! f ! j)"
  for vals :: "real list list"
  by (simp add: sum_list_sum_nth atLeast0LessThan)

lemma np_mean_axis0_Fin:
  assumes "vals \<noteq> []" and "\<forall>fr\<in>set vals. length fr = R"
  shows "np_mean_axis0 (map (map Fin) vals) = map Fin (spec_means vals R)"
proof -
  from assms have hd: "length (hd (map (map Fin) vals)) = R"
    by (cases vals) simp_all
  have "\<And>j. j < R \<Longrightarrow>
      np_mean (map (\<lambda>row. row ! j) (map (map Fin) vals))
        = Fin ((\<Sum>f<length vals. vals ! f ! j) / real (length vals))"
  proof -
    fix j assume "j < R"
    with assms(2) have eq: "map (\<lambda>row. row ! j) (map (map Fin) vals)
        = map Fin (map (\<lambda>row. row ! j) vals)"
      by (rule column_Fin)
    from assms(1) have ne: "map (\<lambda>row. row ! j) vals \<noteq> []"
      by simp
    show "np_mean (map (\<lambda>row. row ! j) (map (map Fin) vals))
        = Fin ((\<Sum>f<length vals. vals ! f ! j) / real (length vals))"
      by (simp only: eq np_mean_Fin [OF ne] column_sum length_map)
  qed
  then show ?thesis
    unfolding np_mean_axis0_def hd spec_means_def by simp
qed

lemma concat_Fin: "concat (map (map Fin) vals) = map Fin (concat vals)"
  by (simp add: map_concat)

lemma rect_concat:
  fixes vals :: "real list list"
  assumes "\<forall>fr\<in>set vals. length fr = R"
  shows "length (concat vals) = length vals * R"
    and "sum_list (concat vals) = (\<Sum>f<length vals. \<Sum>r<R. vals ! f ! r)"
proof -
  show "length (concat vals) = length vals * R"
    using assms by (induction vals) simp_all
  have "sum_list (concat vals) = sum_list (map sum_list vals)"
    by (induction vals) simp_all
  also have "\<dots> = (\<Sum>f<length vals. sum_list (vals ! f))"
    by (simp add: sum_list_sum_nth atLeast0LessThan)
  also have "\<dots> = (\<Sum>f<length vals. \<Sum>r<R. vals ! f ! r)"
    using assms by (intro sum.cong refl) (simp add: sum_list_nth)
  finally show "sum_list (concat vals) = (\<Sum>f<length vals. \<Sum>r<R. vals ! f ! r)" .
qed


text \<open>
  C5. For a completed series of at least one frame with \<open>R > 0\<close> residues in every
  frame, all values finite, \<open>get_avg_std_stem_OP\<close> returns \<open>avg\<close> equal to the grand
  mean over all frame by residue values, sets \<open>means\<close> to the per-residue means across
  the frames, and returns \<open>std\<close> equal to the population standard deviation of those
  means and \<open>stem\<close> equal to \<open>std\<close> over the square root of the residue count.
\<close>

theorem get_avg_std_stem_OP_reduction:
  assumes "traj self = map (map Fin) vals" and "vals \<noteq> []"
    and "\<forall>fr\<in>set vals. length fr = R" and "0 < R"
  shows "get_avg_std_stem_OP self =
     Inr (self\<lparr>means := FloatList (map Fin (spec_means vals R))\<rparr>,
          Fin (spec_avg vals R),
          Fin (spec_std (spec_means vals R)),
          Fin (spec_std (spec_means vals R) / sqrt (real R)))"
proof -
  from assms(2) obtain row rows where vals: "vals = row # rows"
    by (cases vals) auto
  with assms(3) have no_ragged: "\<not> list_ex (\<lambda>r. length r \<noteq> length (map Fin row)) (map (map Fin) rows)"
    by (simp add: list_ex_iff)
  have ms: "np_mean_axis0 (traj self) = map Fin (spec_means vals R)"
    using assms(1,2,3) by (simp add: np_mean_axis0_Fin)
  have ms_ne: "spec_means vals R \<noteq> []" and ms_len: "length (spec_means vals R) = R"
    using assms(4) by (simp_all add: spec_means_def)
  have "concat vals \<noteq> []"
    using rect_concat(1) [OF assms(3)] assms(2,4) by (metis length_0_conv length_greater_0_conv mult_is_0 less_numeral_extra(3))
  then have "np_mean (map Fin (concat vals))
      = Fin (sum_list (concat vals) / real (length (concat vals)))"
    by (rule np_mean_Fin)
  then have avg: "np_mean (concat (traj self)) = Fin (spec_avg vals R)"
    by (simp only: assms(1) concat_Fin spec_avg_def rect_concat [OF assms(3)])
  have sd: "np_std (map Fin (spec_means vals R)) = Fin (spec_std (spec_means vals R))"
    using ms_ne by (rule np_std_Fin)
  have "sqrt (real R) \<noteq> 0"
    using assms(4) by simp
  then have st: "np_div (Fin (spec_std (spec_means vals R))) (sqrt (real R))
      = Fin (spec_std (spec_means vals R) / sqrt (real R))"
    by (simp add: np_divide_def)
  have "traj self = map Fin row # map (map Fin) rows"
    using assms(1) vals by simp
  then have "get_avg_std_stem_OP self =
     Inr (self\<lparr>means := FloatList (np_mean_axis0 (traj self))\<rparr>,
          np_mean (concat (traj self)),
          np_std (np_mean_axis0 (traj self)),
          np_div (np_std (np_mean_axis0 (traj self)))
            (sqrt (real (length (np_mean_axis0 (traj self))))))"
    using no_ragged by (simp add: get_avg_std_stem_OP_def Let_def)
  then show ?thesis
    by (simp only: ms avg sd st length_map ms_len)
qed

lemma upt_2: "[0..<2] = [0, 1]"
  by (simp add: upt_rec)

lemma lessThan_2: "{..<2::nat} = {0, 1}"
  by auto

theorem get_avg_std_stem_OP_reduction_witness:
  "get_avg_std_stem_OP series_2x2 =
     Inr (series_2x2\<lparr>means := FloatList [Fin 1, Fin (- 1)]\<rparr>, Fin 0, Fin 1, Fin (1 / sqrt 2))"
  using get_avg_std_stem_OP_reduction [of series_2x2 "[[2, - 2], [0, 0]]" 2]
  by (simp add: series_2x2_def spec_means_def spec_avg_def spec_std_def upt_2 lessThan_2)

subsection \<open>Normalization\<close>

lemma foldl_plus_sum_list: "foldl (\<lambda>b x. b + f x) a xs = a + (\<Sum>x\<leftarrow>xs. f x)" for a :: real
  by (induction xs arbitrary: a) (simp_all add: add.assoc)

lemma around5_0: "around5 0 = 0"
  by (simp add: around5_def py_round_def)

lemma normalization_mismatch:
  assumes "universe d \<noteq> []" and "n1 d \<noteq> n2 d" and "n1 d \<noteq> 1"
  shows "normalization d (Array g) = Inl ValueError"
  using assms by (simp add: normalization_def np_insert_row0_def Let_def)

lemma normalization_square_eq:
  assumes "universe d \<noteq> []" and "n1 d = n2 d" and "length g = n1 d"
  shows "normalization d (Array g) =
     Inr (map (map (np_map around5))
       ((Fin 0 # map (\<lambda>j. np_divide (real j * avg_box_x d) (real (n1 d))) [0..<n1 d])
        # map2 (#) (map (\<lambda>i. np_divide (real i * avg_box_y d) (real (n2 d))) [0..<n1 d])
            (map (map (\<lambda>c. np_div c (real (length (universe d))))) g)))"
  using assms
  by (simp add: normalization_def np_insert_row0_def np_insert_col0_def Let_def
      foldl_plus_sum_list avg_box_x_def avg_box_y_def)

text \<open>What \<open>normalization\<close> does on a grid \<open>g\<close> of shape \<open>(n1, n2)\<close>, for a trajectory of at
  least one frame. On a square grid it returns the labelled grid of shape
  \<open>(n1 + 1, n2 + 1)\<close>: the cells divided by the number of frames, the tick row, the tick
  column with its leading 0, all rounded to 5 decimals. On a grid that is not square
  (and has more than one row) it raises \<^verbatim>\<open>ValueError\<close>.\<close>

lemma normalization_square:
  assumes "universe d \<noteq> []" and "length g = n1 d" and "\<forall>row\<in>set g. length row = n2 d"
  shows "(n1 d = n2 d \<longrightarrow>
           (\<exists>G. normalization d (Array g) = Inr G
              \<and> length G = n1 d + 1 \<and> (\<forall>row\<in>set G. length row = n2 d + 1)
              \<and> G ! 0 ! 0 = Fin 0
              \<and> (\<forall>j<n1 d. G ! 0 ! Suc j = Fin (around5 (real j * avg_box_x d / real (n1 d))))
              \<and> (\<forall>i<n1 d. G ! Suc i ! 0 = Fin (around5 (real i * avg_box_y d / real (n2 d))))
              \<and> (\<forall>i<n1 d. \<forall>j<n2 d. G ! Suc i ! Suc j
                    = np_map around5 (np_div (g ! i ! j) (real (length (universe d)))))))
       \<and> (n1 d \<noteq> n2 d \<and> n1 d \<noteq> 1 \<longrightarrow> normalization d (Array g) = Inl ValueError)"
proof (intro conjI impI)
  assume sq: "n1 d = n2 d"
  let ?tx = "map (\<lambda>j. np_divide (real j * avg_box_x d) (real (n1 d))) [0..<n1 d]"
  let ?ty = "map (\<lambda>i. np_divide (real i * avg_box_y d) (real (n2 d))) [0..<n1 d]"
  let ?q = "map (map (\<lambda>c. np_div c (real (length (universe d))))) g"
  let ?G = "map (map (np_map around5)) ((Fin 0 # ?tx) # map2 (#) ?ty ?q)"
  have eq: "normalization d (Array g) = Inr ?G"
    using assms(1) sq assms(2) by (rule normalization_square_eq)
  have len: "length ?G = n1 d + 1"
    using assms(2) by simp
  have rows: "\<forall>row\<in>set ?G. length row = n2 d + 1"
    using assms(3) sq by (auto simp: set_zip)
  have corner: "?G ! 0 ! 0 = Fin 0"
    by (simp add: around5_0)
  have top: "\<forall>j<n1 d. ?G ! 0 ! Suc j = Fin (around5 (real j * avg_box_x d / real (n1 d)))"
    by (simp add: np_divide_def)
  have left: "\<forall>i<n1 d. ?G ! Suc i ! 0 = Fin (around5 (real i * avg_box_y d / real (n2 d)))"
    using assms(2) sq by (simp add: np_divide_def)
  have cells: "\<forall>i<n1 d. \<forall>j<n2 d. ?G ! Suc i ! Suc j
                    = np_map around5 (np_div (g ! i ! j) (real (length (universe d))))"
    using assms(2,3) by simp
  from eq len rows corner top left cells
  show "\<exists>G. normalization d (Array g) = Inr G
              \<and> length G = n1 d + 1 \<and> (\<forall>row\<in>set G. length row = n2 d + 1)
              \<and> G ! 0 ! 0 = Fin 0
              \<and> (\<forall>j<n1 d. G ! 0 ! Suc j = Fin (around5 (real j * avg_box_x d / real (n1 d))))
              \<and> (\<forall>i<n1 d. G ! Suc i ! 0 = Fin (around5 (real i * avg_box_y d / real (n2 d))))
              \<and> (\<forall>i<n1 d. \<forall>j<n2 d. G ! Suc i ! Suc j
                    = np_map around5 (np_div (g ! i ! j) (real (length (universe d)))))"
    by blast
next
  assume "n1 d \<noteq> n2 d \<and> n1 d \<noteq> 1"
  with assms(1) show "normalization d (Array g) = Inl ValueError"
    by (simp add: normalization_mismatch)
qed

lemma normalization_square_example:
  "normalization (density_2x2 two_boxes) (Array [[Fin 1, Fin 2], [NonFin, Fin 0.00003]])
     = Inr [[Fin 0, Fin 0, Fin 0.025], [Fin 0, Fin 0.5, Fin 1], [Fin 0.03, NonFin, Fin 0.00002]]"
  using normalization_square [of "density_2x2 two_boxes" "[[Fin 1, Fin 2], [NonFin, Fin 0.00003]]"]
  by (simp add: normalization_def density_2x2_def two_boxes_def box_frame_def vx_def vy_def
      np_insert_row0_def np_insert_col0_def np_divide_def around5_def py_round_def Let_def upt_2)

lemma Density_init_2x3: "Density_init [frame_2x3] [0] = Inr density_2x3"
  by (simp add: Density_init_def frame_2x3_def box_frame_def density_2x3_def vx_def vy_def
      py_round_def Let_def)

lemma do2dgrid_2x3:
  "do2dgrid density_2x3 [frame_2x3] [] = Inr [[[Fin 25000, Fin 0, Fin 0], [Fin 0, Fin 0, Fin 0]]]"
  by code_simp

lemma normalization_2x3:
  "normalization density_2x3 (Array [[Fin 25000, Fin 0, Fin 0], [Fin 0, Fin 0, Fin 0]])
     = Inl ValueError"
  by (simp add: normalization_def density_2x3_def np_insert_row0_def Let_def)

lemma dmap_2x3: "outcome (dmap_multiprocessing [frame_2x3] [0] 1) = Inl ValueError"
  by code_simp

text \<open>
  C2. The claim: normalization yields the labelled grid of shape \<open>(n1 + 1, n2 + 1)\<close>,
  also when \<open>n1\<close> differs from \<open>n2\<close>. The code: a one-frame trajectory with a box of 0.4 by
  0.6 gives \<open>n1 = 2\<close> and \<open>n2 = 3\<close>, and \<open>do2dgrid\<close> accumulates its grid of 2 by 3 cells;
  but both tick lists run over \<^verbatim>\<open>range(self.n1)\<close>, the 2 values of the tick row do not
  fit the 3 columns, \<^verbatim>\<open>np.insert\<close> raises \<^verbatim>\<open>ValueError\<close> and
  \<open>dmap_multiprocessing\<close> returns no grid, where the claim gives one of shape 3 by 4.
\<close>

theorem normalization_2x3_raises:
  "Density_init [frame_2x3] [0] = Inr density_2x3
   \<and> do2dgrid density_2x3 [frame_2x3] []
        = Inr [[[Fin 25000, Fin 0, Fin 0], [Fin 0, Fin 0, Fin 0]]]
   \<and> normalization density_2x3 (Array [[Fin 25000, Fin 0, Fin 0], [Fin 0, Fin 0, Fin 0]])
        = Inl ValueError
   \<and> outcome (dmap_multiprocessing [frame_2x3] [0] 1) = Inl ValueError"
  by (intro conjI Density_init_2x3 do2dgrid_2x3 normalization_2x3 dmap_2x3)

subsection \<open>The accumulation on the example frames\<close>

lemma density_2x2_simps:
  "selection (density_2x2 u) = [0]" "n1 (density_2x2 u) = 2" "n2 (density_2x2 u) = 2"
  "universe (density_2x2 u) = u"
  by (simp_all add: density_2x2_def)

lemma Density_init_a: "Density_init [frame_a] [0] = Inr (density_2x2 [frame_a])"
  by (simp add: Density_init_def frame_a_def box_frame_def density_2x2_def vx_def vy_def
      py_round_def Let_def)

lemma two_boxes_init: "Density_init two_boxes [0] = Inr (density_2x2 two_boxes)"
  by (simp add: Density_init_def two_boxes_def box_frame_def density_2x2_def vx_def vy_def
      py_round_def Let_def)

lemma cell_a: "atom_cell (density_2x2 u) frame_a (positions frame_a a) = Inr (0, 0)"
  by (simp add: atom_cell_def frame_a_def box_frame_def density_2x2_def vx_def vy_def
      np_divide_def wrap_m1_def wrap_m2_def py_int_def np_index_def Let_def)

lemma cell_b: "atom_cell (density_2x2 u) frame_b (positions frame_b a) = Inr (1, 0)"
  by (simp add: atom_cell_def frame_b_def box_frame_def density_2x2_def vx_def vy_def
      np_divide_def wrap_m1_def wrap_m2_def py_int_def np_index_def Let_def)

lemma spec_cell_a:
  "spec_atom_cell (density_2x2 u) frame_a (positions frame_a a) = (0, 1)"
  by (simp add: spec_atom_cell_def spec_cell_def spec_wrap_def frame_a_def box_frame_def
      density_2x2_def vx_def vy_def)

lemma invcellvol_ab:
  "invcellvol (density_2x2 u) frame_a = Fin 25000"
  "invcellvol (density_2x2 u) frame_b = Fin 25000"
  by (simp_all add: invcellvol_def frame_a_def frame_b_def box_frame_def density_2x2_def
      det_def mscale_def vscale_def vx_def vy_def vz_def np_divide_def)

lemma grid_incr_2x2:
  "grid_incr [[a, b], [c, e]] 0 0 w = [[np_add a w, b], [c, e]]"
  "grid_incr [[a, b], [c, e]] (Suc 0) 0 w = [[a, b], [np_add c w, e]]"
  by (simp_all add: grid_incr_def)

lemma np_zeros_2x2: "np_zeros 2 2 = [[Fin 0, Fin 0], [Fin 0, Fin 0]]"
  by (simp add: np_zeros_def eval_nat_numeral)

lemma accumulate_examples:
  "accumulate (density_2x2 u) [frame_a] = Inr [[Fin 25000, Fin 0], [Fin 0, Fin 0]]"
  "accumulate (density_2x2 u) [frame_b] = Inr [[Fin 0, Fin 0], [Fin 25000, Fin 0]]"
  "accumulate (density_2x2 u) [frame_a, frame_b] = Inr [[Fin 25000, Fin 0], [Fin 25000, Fin 0]]"
  by (simp_all add: accumulate_def density_2x2_simps invcellvol_ab cell_a cell_b np_zeros_2x2
      grid_incr_2x2 np_add_def)

subsection \<open>The wrap-around of the fractional positions\<close>

text \<open>After its own wrap-around \<open>m1\<close> is negative only when it was below \<open>-1\<close>: in every
  other case the test \<^verbatim>\<open>if m1 < 0\<close> before \<^verbatim>\<open>m2 += 1\<close> fails, whatever \<open>m2\<close> is.\<close>

lemma wrap_m1_range: "- 1 \<le> m1 \<Longrightarrow> m1 < 2 \<Longrightarrow> 0 \<le> wrap_m1 m1 \<and> wrap_m1 m1 < 1"
  by (simp add: wrap_m1_def Let_def)

lemma wrap_m1_spec: "wrap_m1 m1 = (if m1 \<ge> 1 then m1 - 1 else if m1 < 0 then m1 + 1 else m1)"
  by (simp add: wrap_m1_def Let_def)

lemma wrap_m2_never_adds:
  "- 1 \<le> m1 \<Longrightarrow> wrap_m2 (wrap_m1 m1) m2 = (if m2 \<ge> 1 then m2 - 1 else m2)"
  by (simp add: wrap_m1_def wrap_m2_def Let_def)

text \<open>
  C1. The claim: each axis is wrapped with its own fraction, so a negative \<open>m2\<close> gets 1
  added whatever \<open>m1\<close> is. The code: on a box of 0.4 by 0.4 (a grid of 2 by 2) an atom at
  \<open>x = 0.1\<close>, \<open>y = -0.1\<close> has \<open>m1 = 0.25\<close> and \<open>m2 = -0.25\<close>; nothing is added to \<open>m2\<close>,
  \<^verbatim>\<open>int(-0.5)\<close> is 0 and \<open>do2dgrid\<close> increments the cell \<open>[0][0]\<close>, where the wrap-around
  of the claim gives \<open>m2 = 0.75\<close> and the cell \<open>[0][1]\<close>.
\<close>

theorem do2dgrid_negative_y_cell:
  "Density_init [frame_a] [0] = Inr (density_2x2 [frame_a])
   \<and> do2dgrid (density_2x2 [frame_a]) [frame_a] [] = Inr [[[Fin 25000, Fin 0], [Fin 0, Fin 0]]]
   \<and> atom_cell (density_2x2 [frame_a]) frame_a (positions frame_a 0) = Inr (0, 0)
   \<and> spec_atom_cell (density_2x2 [frame_a]) frame_a (positions frame_a 0) = (0, 1)"
  by (simp add: Density_init_a do2dgrid_def accumulate_examples cell_a spec_cell_a)

subsection \<open>Sums of grids\<close>

lemma np_add_commute: "np_add a b = np_add b a"
  by (cases a; cases b) (simp_all add: np_add_def)

lemma np_add_assoc: "np_add (np_add a b) c = np_add a (np_add b c)"
  by (cases a; cases b; cases c) (simp_all add: np_add_def)

lemma np_add_right_commute: "np_add (np_add a y) x = np_add (np_add a x) y"
  by (cases a; cases x; cases y) (simp_all add: np_add_def)

lemma np_add_zero: "np_add a (Fin 0) = a" "np_add (Fin 0) a = a"
  by (cases a; simp add: np_add_def)+

lemma map2_right_commute:
  assumes "\<And>a x y. f (f a y) x = f (f a x) y"
  shows "map2 f (map2 f a y) x = map2 f (map2 f a x) y"
proof (induction a arbitrary: x y)
  case Nil
  show ?case by simp
next
  case (Cons a0 a)
  show ?case
  proof (cases x)
    case Nil
    then show ?thesis by simp
  next
    case cx: (Cons x0 xs)
    show ?thesis
    proof (cases y)
      case Nil
      then show ?thesis by simp
    next
      case cy: (Cons y0 ys)
      from Cons.IH [of ys xs] assms [of a0 y0 x0] show ?thesis
        by (simp add: cx cy)
    qed
  qed
qed

lemma grid_add_right_commute: "grid_add (grid_add a y) x = grid_add (grid_add a x) y"
  unfolding grid_add_def
  by (rule map2_right_commute) (rule map2_right_commute, rule np_add_right_commute)

lemma grid_shape_zeros: "grid_shape k l (np_zeros k l)"
  by (simp add: grid_shape_def np_zeros_def list_all_iff)

lemma grid_shape_nth: "grid_shape k l g \<Longrightarrow> i < k \<Longrightarrow> length (g ! i) = l"
  by (simp add: grid_shape_def list_all_length)

lemma grid_shape_add: "grid_shape k l g \<Longrightarrow> grid_shape k l h \<Longrightarrow> grid_shape k l (grid_add g h)"
  by (auto simp add: grid_shape_def grid_add_def list_all_length)

lemma grid_add_nth:
  "grid_shape k l g \<Longrightarrow> grid_shape k l h \<Longrightarrow> i < k \<Longrightarrow> j < l \<Longrightarrow>
     grid_add g h ! i ! j = np_add (g ! i ! j) (h ! i ! j)"
  by (simp add: grid_shape_def grid_add_def list_all_length)

lemma grid_eqI:
  assumes "grid_shape k l g" and "grid_shape k l h"
    and "\<And>i j. i < k \<Longrightarrow> j < l \<Longrightarrow> g ! i ! j = h ! i ! j"
  shows "g = h"
proof (rule nth_equalityI)
  show "length g = length h"
    using assms(1,2) by (simp add: grid_shape_def)
next
  fix i assume "i < length g"
  then have i: "i < k" using assms(1) by (simp add: grid_shape_def)
  show "g ! i = h ! i"
  proof (rule nth_equalityI)
    show "length (g ! i) = length (h ! i)"
      using assms(1,2) i by (simp add: grid_shape_nth)
  next
    fix j assume "j < length (g ! i)"
    then have "j < l" using assms(1) i by (simp add: grid_shape_nth)
    with i show "g ! i ! j = h ! i ! j" by (rule assms(3))
  qed
qed

lemma grid_add_zeros: "grid_shape k l g \<Longrightarrow> grid_add g (np_zeros k l) = g"
  "grid_shape k l g \<Longrightarrow> grid_add (np_zeros k l) g = g"
proof -
  assume g: "grid_shape k l g"
  have z: "\<And>i j. i < k \<Longrightarrow> j < l \<Longrightarrow> np_zeros k l ! i ! j = Fin 0"
    by (simp add: np_zeros_def)
  show "grid_add g (np_zeros k l) = g"
    by (rule grid_eqI [OF grid_shape_add [OF g grid_shape_zeros] g])
       (simp add: grid_add_nth [OF g grid_shape_zeros] z np_add_zero)
  show "grid_add (np_zeros k l) g = g"
    by (rule grid_eqI [OF grid_shape_add [OF grid_shape_zeros g] g])
       (simp add: grid_add_nth [OF grid_shape_zeros g] z np_add_zero)
qed

text \<open>The sum of two grids of one shape is commutative and associative.\<close>

lemma grid_add_commute:
  assumes g: "grid_shape k l g" and h: "grid_shape k l h"
  shows "grid_add g h = grid_add h g"
  by (rule grid_eqI [OF grid_shape_add [OF g h] grid_shape_add [OF h g]])
     (simp add: grid_add_nth [OF g h] grid_add_nth [OF h g] np_add_commute)

lemma grid_add_assoc:
  assumes a: "grid_shape k l a" and b: "grid_shape k l b" and c: "grid_shape k l c"
  shows "grid_add (grid_add a b) c = grid_add a (grid_add b c)"
  by (rule grid_eqI [OF grid_shape_add [OF grid_shape_add [OF a b] c]
        grid_shape_add [OF a grid_shape_add [OF b c]]])
     (simp add: grid_add_nth [OF grid_shape_add [OF a b] c]
        grid_add_nth [OF a grid_shape_add [OF b c]] grid_add_nth [OF a b]
        grid_add_nth [OF b c] np_add_assoc)

lemma grid_shape_incr: "grid_shape k l g \<Longrightarrow> grid_shape k l (grid_incr g i j w)"
  by (cases "i < length g")
     (auto simp add: grid_shape_def grid_incr_def list_all_length nth_list_update)

lemma grid_incr_nth:
  "grid_shape k l g \<Longrightarrow> i < k \<Longrightarrow> j < l \<Longrightarrow> i' < k \<Longrightarrow> j' < l \<Longrightarrow>
     grid_incr g i j w ! i' ! j' = (if i' = i \<and> j' = j then np_add (g ! i ! j) w else g ! i' ! j')"
  by (auto simp add: grid_shape_def grid_incr_def list_all_length nth_list_update)

lemma grid_add_incr:
  assumes g: "grid_shape k l g" and h: "grid_shape k l h" and i: "i < k" and j: "j < l"
  shows "grid_incr (grid_add g h) i j w = grid_add g (grid_incr h i j w)"
proof (rule grid_eqI [OF grid_shape_incr [OF grid_shape_add [OF g h]]
      grid_shape_add [OF g grid_shape_incr [OF h]]])
  fix i' j' assume "i' < k" "j' < l"
  then show "grid_incr (grid_add g h) i j w ! i' ! j' = grid_add g (grid_incr h i j w) ! i' ! j'"
    using i j
    by (simp add: grid_incr_nth [OF grid_shape_add [OF g h]] grid_incr_nth [OF h]
        grid_add_nth [OF g h] grid_add_nth [OF g grid_shape_incr [OF h]] np_add_assoc)
qed


lemma np_index_bound: "np_index n i = Inr k \<Longrightarrow> k < n"
  by (auto simp: np_index_def split: if_splits)

lemma atom_cell_bounds: "atom_cell d ts p = Inr (i, j) \<Longrightarrow> i < n1 d \<and> j < n2 d"
  by (auto simp: atom_cell_def Let_def dest: np_index_bound split: npfloat.splits sum.splits)

lemma add_atoms_shift:
  assumes "grid_shape (n1 d) (n2 d) g" and "grid_shape (n1 d) (n2 d) h"
  shows "add_atoms d ts w (grid_add g h) as =
     (case add_atoms d ts w h as of Inl e \<Rightarrow> Inl e | Inr a \<Rightarrow> Inr (grid_add g a))"
  using assms(2)
proof (induction as arbitrary: h)
  case Nil
  show ?case by simp
next
  case (Cons a as)
  show ?case
  proof (cases "atom_cell d ts (positions ts a)")
    case (Inl e)
    then show ?thesis by simp
  next
    case (Inr ij)
    obtain i j where ij: "ij = (i, j)" by (cases ij)
    with Inr have cell: "atom_cell d ts (positions ts a) = Inr (i, j)" by simp
    then have b: "i < n1 d" "j < n2 d"
      using atom_cell_bounds by blast+
    have "grid_incr (grid_add g h) i j w = grid_add g (grid_incr h i j w)"
      using assms(1) Cons.prems b by (rule grid_add_incr)
    moreover have "grid_shape (n1 d) (n2 d) (grid_incr h i j w)"
      using Cons.prems by (rule grid_shape_incr)
    ultimately show ?thesis
      using Cons.IH [of "grid_incr h i j w"] by (simp add: cell)
  qed
qed

lemma add_atoms_shape:
  "grid_shape k l g \<Longrightarrow> add_atoms d ts w g as = Inr g' \<Longrightarrow> grid_shape k l g'"
proof (induction as arbitrary: g)
  case Nil
  then show ?case by simp
next
  case (Cons a as)
  from Cons.prems(2) obtain i j where cell: "atom_cell d ts (positions ts a) = Inr (i, j)"
    and rest: "add_atoms d ts w (grid_incr g i j w) as = Inr g'"
    by (auto split: sum.splits)
  from Cons.prems(1) have "grid_shape k l (grid_incr g i j w)"
    by (rule grid_shape_incr)
  then show ?case
    using rest by (rule Cons.IH)
qed

lemma add_frames_shape:
  "grid_shape k l g \<Longrightarrow> add_frames d g fs = Inr g' \<Longrightarrow> grid_shape k l g'"
proof (induction fs arbitrary: g)
  case Nil
  then show ?case by simp
next
  case (Cons ts fs)
  from Cons.prems(2) obtain g1 where
    one: "add_atoms d ts (invcellvol d ts) g (selection d) = Inr g1"
    and rest: "add_frames d g1 fs = Inr g'"
    by (auto split: sum.splits)
  from Cons.prems(1) one have "grid_shape k l g1"
    by (rule add_atoms_shape)
  then show ?case
    using rest by (rule Cons.IH)
qed

lemma add_frames_shift:
  assumes "grid_shape (n1 d) (n2 d) g" and "grid_shape (n1 d) (n2 d) h"
  shows "add_frames d (grid_add g h) fs =
     (case add_frames d h fs of Inl e \<Rightarrow> Inl e | Inr a \<Rightarrow> Inr (grid_add g a))"
  using assms(2)
proof (induction fs arbitrary: h)
  case Nil
  show ?case by simp
next
  case (Cons ts fs)
  let ?w = "invcellvol d ts"
  have step: "add_atoms d ts ?w (grid_add g h) (selection d) =
     (case add_atoms d ts ?w h (selection d) of Inl e \<Rightarrow> Inl e | Inr a \<Rightarrow> Inr (grid_add g a))"
    using assms(1) Cons.prems by (rule add_atoms_shift)
  show ?case
  proof (cases "add_atoms d ts ?w h (selection d)")
    case (Inl e)
    with step show ?thesis by simp
  next
    case (Inr h1)
    with Cons.prems have "grid_shape (n1 d) (n2 d) h1"
      using add_atoms_shape by blast
    then show ?thesis
      using step Inr Cons.IH [of h1] by simp
  qed
qed

lemma add_frames_append:
  "add_frames d g (xs @ ys) =
     (case add_frames d g xs of Inl e \<Rightarrow> Inl e | Inr g' \<Rightarrow> add_frames d g' ys)"
  by (induction xs arbitrary: g) (simp_all split: sum.splits)

lemma accumulate_shape: "accumulate d fs = Inr g \<Longrightarrow> grid_shape (n1 d) (n2 d) g"
  unfolding accumulate_def using grid_shape_zeros by (rule add_frames_shape)

lemma accumulate_append:
  "accumulate d (xs @ ys) =
     (case accumulate d xs of
        Inl e \<Rightarrow> Inl e
      | Inr gx \<Rightarrow> (case accumulate d ys of Inl e \<Rightarrow> Inl e | Inr gy \<Rightarrow> Inr (grid_add gx gy)))"
proof (cases "accumulate d xs")
  case (Inl e)
  then show ?thesis
    by (simp add: accumulate_def add_frames_append)
next
  case (Inr gx)
  then have shape: "grid_shape (n1 d) (n2 d) gx"
    by (rule accumulate_shape)
  have "add_frames d gx ys = add_frames d (grid_add gx (np_zeros (n1 d) (n2 d))) ys"
    using shape by (simp add: grid_add_zeros)
  also have "\<dots> = (case add_frames d (np_zeros (n1 d) (n2 d)) ys of
                      Inl e \<Rightarrow> Inl e | Inr a \<Rightarrow> Inr (grid_add gx a))"
    using shape grid_shape_zeros by (rule add_frames_shift)
  finally show ?thesis
    using Inr by (simp add: accumulate_def add_frames_append)
qed

lemma do2dgrid_accumulate: "do2dgrid d fs l = Inr l' \<longleftrightarrow> (\<exists>g. accumulate d fs = Inr g \<and> l' = l @ [g])"
  by (auto simp: do2dgrid_def split: sum.splits)

lemma accumulate_concat:
  "accumulate d (concat chunks) = Inr G \<Longrightarrow>
     \<exists>gs. list_all2 (\<lambda>c g. accumulate d c = Inr g) chunks gs
        \<and> foldl grid_add (np_zeros (n1 d) (n2 d)) gs = G"
proof (induction chunks arbitrary: G rule: rev_induct)
  case Nil
  then show ?case by (simp add: accumulate_def)
next
  case (snoc c cs)
  from snoc.prems have "accumulate d (concat cs @ c) = Inr G"
    by simp
  then obtain G1 gc where G1: "accumulate d (concat cs) = Inr G1"
    and gc: "accumulate d c = Inr gc" and G: "G = grid_add G1 gc"
    by (auto simp: accumulate_append split: sum.splits)
  from snoc.IH [OF G1] obtain gs where
    gs: "list_all2 (\<lambda>c g. accumulate d c = Inr g) cs gs"
    and sum: "foldl grid_add (np_zeros (n1 d) (n2 d)) gs = G1"
    by blast
  from gs gc have "list_all2 (\<lambda>c g. accumulate d c = Inr g) (cs @ [c]) (gs @ [gc])"
    by (simp add: list_all2_appendI)
  moreover from sum G have "foldl grid_add (np_zeros (n1 d) (n2 d)) (gs @ [gc]) = G"
    by simp
  ultimately show ?case by blast
qed

lemma foldl_grid_add_perm:
  assumes "mset gs' = mset gs"
  shows "foldl grid_add z gs' = foldl grid_add z gs"
proof -
  have "fold (\<lambda>x a. grid_add a x) gs' = fold (\<lambda>x a. grid_add a x) gs"
    by (rule fold_multiset_equiv) (auto simp: fun_eq_iff grid_add_right_commute assms)
  then show ?thesis
    by (simp add: foldl_conv_fold)
qed

lemma py_sum_foldl:
  assumes "gs \<noteq> []" and "list_all (grid_shape k l) gs"
  shows "py_sum gs = Array (foldl grid_add (np_zeros k l) gs)"
  using assms by (cases gs) (simp_all add: grid_add_zeros)

lemma run_workers_all:
  "list_all2 (\<lambda>c g. accumulate d c = Inr g) chunks gs \<Longrightarrow> run_workers d chunks l = l @ gs"
proof (induction chunks arbitrary: gs l)
  case Nil
  then show ?case by simp
next
  case (Cons c cs)
  then obtain g gs1 where "gs = g # gs1" "accumulate d c = Inr g"
      "list_all2 (\<lambda>c g. accumulate d c = Inr g) cs gs1"
    by (auto simp: list_all2_Cons1)
  then show ?case
    using Cons.IH [of gs1 "l @ [g]"] by (simp add: do2dgrid_def)
qed

text \<open>
  C7. For every frame set, every atom selection and every partition of the frame set
  into contiguous subranges \<open>chunks\<close> (at least one), when the single pass of \<open>do2dgrid\<close>
  over the whole frame set produces the grid \<open>G\<close>: the pass over every subrange
  produces a partial grid, and the sum of the partial grids, taken in any order, is
  \<open>G\<close>.
\<close>

theorem partial_grids_sum:
  assumes "chunks \<noteq> []" and "do2dgrid d (concat chunks) [] = Inr [G]"
  shows "\<exists>gs. list_all2 (\<lambda>c g. do2dgrid d c [] = Inr [g]) chunks gs
           \<and> (\<forall>gs'. mset gs' = mset gs \<longrightarrow> py_sum gs' = Array G)"
proof -
  from assms(2) have "accumulate d (concat chunks) = Inr G"
    by (simp add: do2dgrid_accumulate)
  then obtain gs where gs: "list_all2 (\<lambda>c g. accumulate d c = Inr g) chunks gs"
    and sum: "foldl grid_add (np_zeros (n1 d) (n2 d)) gs = G"
    using accumulate_concat by blast
  from gs have parts: "list_all2 (\<lambda>c g. do2dgrid d c [] = Inr [g]) chunks gs"
    by (simp add: do2dgrid_accumulate)
  have "grid_shape (n1 d) (n2 d) g" if "g \<in> set gs" for g
  proof -
    from that obtain n where n: "n < length gs" and g: "gs ! n = g"
      by (auto simp: in_set_conv_nth)
    from gs n have "accumulate d (chunks ! n) = Inr (gs ! n)"
      by (rule list_all2_nthD2)
    then show ?thesis
      unfolding g by (rule accumulate_shape)
  qed
  then have shapes: "list_all (grid_shape (n1 d) (n2 d)) gs"
    by (simp add: list_all_iff)
  from gs have "length chunks = length gs"
    by (rule list_all2_lengthD)
  with assms(1) have ne: "gs \<noteq> []"
    by auto
  have "py_sum gs' = Array G" if perm: "mset gs' = mset gs" for gs'
  proof -
    from perm have "length gs' = length gs"
      by (rule mset_eq_length)
    with ne have ne': "gs' \<noteq> []"
      by auto
    from perm have "set gs' = set gs"
      by (rule mset_eq_setD)
    with shapes have "list_all (grid_shape (n1 d) (n2 d)) gs'"
      by (simp add: list_all_iff)
    with ne' have "py_sum gs' = Array (foldl grid_add (np_zeros (n1 d) (n2 d)) gs')"
      by (rule py_sum_foldl)
    also have "\<dots> = Array (foldl grid_add (np_zeros (n1 d) (n2 d)) gs)"
      by (simp only: foldl_grid_add_perm [OF perm])
    finally show ?thesis
      by (simp add: sum)
  qed
  with parts show ?thesis by blast
qed

theorem partial_grids_sum_witness:
  "do2dgrid (density_2x2 [frame_a, frame_b]) [frame_a, frame_b] []
     = Inr [[[Fin 25000, Fin 0], [Fin 25000, Fin 0]]]
   \<and> py_sum [[[Fin 0, Fin 0], [Fin 25000, Fin 0]], [[Fin 25000, Fin 0], [Fin 0, Fin 0]]]
        = Array [[Fin 25000, Fin 0], [Fin 25000, Fin 0]]"
proof -
  let ?d = "density_2x2 [frame_a, frame_b]"
  let ?ga = "[[Fin 25000, Fin 0], [Fin 0, Fin 0]]"
  let ?gb = "[[Fin 0, Fin 0], [Fin 25000, Fin 0]]"
  let ?G = "[[Fin 25000, Fin 0], [Fin 25000, Fin 0]]"
  have whole: "do2dgrid ?d (concat [[frame_a], [frame_b]]) [] = Inr [?G]"
    by (simp add: do2dgrid_def accumulate_examples)
  have "[[frame_a], [frame_b]] \<noteq> []"
    by simp
  from partial_grids_sum [OF this whole] obtain gs where
    gs: "list_all2 (\<lambda>c g. do2dgrid ?d c [] = Inr [g]) [[frame_a], [frame_b]] gs"
    and any: "\<forall>gs'. mset gs' = mset gs \<longrightarrow> py_sum gs' = Array ?G"
    by blast
  from gs have "gs = [?ga, ?gb]"
    by (auto simp: list_all2_Cons1 do2dgrid_def accumulate_examples)
  then have "mset [?gb, ?ga] = mset gs"
    by (simp add: add_mset_commute)
  with any have "py_sum [?gb, ?ga] = Array ?G"
    by blast
  with whole show ?thesis
    by simp
qed

text \<open>The same for \<open>dmap_multiprocessing\<close>: when the chunks cover the trajectory and the
  single pass over it gives \<open>G\<close>, the sum that is normalized is \<open>G\<close>.\<close>

lemma dmap_merge:
  assumes "Density_init u sel = Inr d" and "frame_chunks u ncore = Inr chunks"
    and "concat chunks = u" and "accumulate d u = Inr G"
  shows "outcome (dmap_multiprocessing u sel ncore) = normalization d (Array G)
     \<and> processes (dmap_multiprocessing u sel ncore) = length chunks"
proof -
  from assms(1) have "u \<noteq> []"
    by (auto simp: Density_init_def)
  with assms(3) have ne: "chunks \<noteq> []"
    by auto
  from assms(3,4) obtain gs where gs: "list_all2 (\<lambda>c g. accumulate d c = Inr g) chunks gs"
    and sum: "foldl grid_add (np_zeros (n1 d) (n2 d)) gs = G"
    using accumulate_concat by blast
  have run: "run_workers d chunks [] = gs"
    using run_workers_all [OF gs, of "[]"] by simp
  have "grid_shape (n1 d) (n2 d) g" if "g \<in> set gs" for g
  proof -
    from that obtain n where n: "n < length gs" and g: "gs ! n = g"
      by (auto simp: in_set_conv_nth)
    from gs n have "accumulate d (chunks ! n) = Inr (gs ! n)"
      by (rule list_all2_nthD2)
    then show ?thesis
      unfolding g by (rule accumulate_shape)
  qed
  then have shapes: "list_all (grid_shape (n1 d) (n2 d)) gs"
    by (simp add: list_all_iff)
  from gs have "length chunks = length gs"
    by (rule list_all2_lengthD)
  with ne have "gs \<noteq> []"
    by auto
  then have "py_sum gs = Array G"
    using shapes sum by (simp add: py_sum_foldl)
  then show ?thesis
    using assms(1,2) run by (simp add: dmap_multiprocessing_def Let_def)
qed

subsection \<open>The chunks of \<^verbatim>\<open>dmap_multiprocessing\<close>\<close>

lemma chunk_step: "nat (py_int (real n / real m)) = n div m"
proof -
  have "0 \<le> real n / real m"
    by simp
  then have "py_int (real n / real m) = \<lfloor>real n / real m\<rfloor>"
    by (simp add: py_int_def)
  also have "\<dots> = int (n div m)"
    by (simp add: floor_divide_of_nat_eq)
  finally show ?thesis
    by simp
qed

lemma concat_slices:
  "concat (map (\<lambda>x. slice xs x (x + s)) (map (\<lambda>k. k * s) [0..<m])) = take (m * s) xs"
proof (induction m)
  case 0
  show ?case by simp
next
  case (Suc m)
  have "take (m * s + s) xs = take (m * s) xs @ take s (drop (m * s) xs)"
    by (rule take_add)
  with Suc show ?case
    by (simp add: slice_def add.commute)
qed

lemma ceil_div_covers: "0 < s \<Longrightarrow> n \<le> ((n + s - 1) div s) * s" for n s :: nat
proof -
  assume s: "0 < s"
  have "n + s - 1 = ((n + s - 1) div s) * s + (n + s - 1) mod s"
    by simp
  moreover have "(n + s - 1) mod s \<le> s - 1"
    using s by (simp add: Suc_leI le_diff_conv2 mod_less_divisor Suc_le_eq less_Suc_eq_le) 
  ultimately show ?thesis
    using s by linarith
qed

lemma frame_chunks_partition:
  assumes "0 < ncore" and "ncore \<le> length xs"
  shows "\<exists>chunks. frame_chunks xs ncore = Inr chunks \<and> concat chunks = xs
     \<and> length chunks = (length xs + length xs div ncore - 1) div (length xs div ncore)
     \<and> (\<forall>c\<in>set chunks. c \<noteq> [] \<and> length c \<le> length xs div ncore)"
proof -
  let ?n = "length xs"
  let ?s = "?n div ncore"
  let ?m = "(?n + ?s - 1) div ?s"
  let ?chunks = "map (\<lambda>x. slice xs x (x + ?s)) (map (\<lambda>k. k * ?s) [0..<?m])"
  from assms have s: "0 < ?s"
    by (simp add: div_greater_zero_iff)
  then have eq: "frame_chunks xs ncore = Inr ?chunks"
    using assms(1) by (simp add: frame_chunks_def chunk_step py_range_def Let_def)
  have "concat ?chunks = take (?m * ?s) xs"
    by (rule concat_slices)
  also have "\<dots> = xs"
    using ceil_div_covers [OF s, of ?n] by simp
  finally have cover: "concat ?chunks = xs" .
  have len: "length ?chunks = ?m"
    by simp
  have "c \<noteq> [] \<and> length c \<le> ?s" if "c \<in> set ?chunks" for c
  proof -
    from that obtain k where k: "k < ?m" and c: "c = slice xs (k * ?s) (k * ?s + ?s)"
      by auto
    have "k * ?s < ?n"
    proof (rule ccontr)
      assume "\<not> k * ?s < ?n"
      then have "?n + ?s - 1 < (k + 1) * ?s"
        using s by simp
      then have "?m < k + 1"
        using s by (simp add: less_mult_imp_div_less)
      with k show False by simp
    qed
    then show ?thesis
      using s by (simp add: c slice_def)
  qed
  with eq cover len show ?thesis
    by blast
qed

lemma frame_chunks_too_many_cores:
  "length trajectory < ncore \<Longrightarrow> frame_chunks trajectory ncore = Inl ValueError"
  by (simp add: frame_chunks_def chunk_step py_range_def Let_def)

text \<open>
  C8. The claim: for \<open>1 \<le> ncore \<le> n\<close> the frames are cut into exactly \<open>ncore\<close> chunks,
  one worker each. The code: the chunk length is \<open>n div ncore\<close> and the frames left over
  make one more chunk; 10 frames on 3 cores give the 4 chunks of 3, 3, 3 and 1 frames,
  and \<open>dmap_multiprocessing\<close> starts 4 processes. (The chunks are disjoint, contiguous
  and cover the frames: \<open>frame_chunks_partition\<close>.)
\<close>

theorem ten_frames_three_cores:
  "frame_chunks [0, 1, 2, 3, 4, 5, 6, 7, 8, 9 :: nat] 3
     = Inr [[0, 1, 2], [3, 4, 5], [6, 7, 8], [9]]
   \<and> processes (dmap_multiprocessing (replicate 10 frame_a) [0] 3) = 4"
  by code_simp

text \<open>
  C10. For every trajectory of \<open>n \<ge> 1\<close> frames and every core count \<open>ncore > n\<close>,
  \<open>dmap_multiprocessing\<close> raises \<^verbatim>\<open>ValueError\<close> (the step \<open>int(n/ncore)\<close> is 0 and
  \<^verbatim>\<open>range\<close> refuses it) before any process is started: no partial grid is produced.
\<close>

theorem dmap_too_many_cores:
  assumes "u \<noteq> []" and "length u < ncore"
  shows "dmap_multiprocessing u sel ncore
           = \<lparr>processes = 0, l_grids = [], outcome = Inl ValueError\<rparr>"
proof -
  from assms(1) obtain d where "Density_init u sel = Inr d"
    by (cases u) (simp_all add: Density_init_def)
  with assms(2) show ?thesis
    by (simp add: dmap_multiprocessing_def frame_chunks_too_many_cores)
qed

theorem dmap_too_many_cores_witness:
  "dmap_multiprocessing [frame_a, frame_b] [0] 3
           = \<lparr>processes = 0, l_grids = [], outcome = Inl ValueError\<rparr>"
  using dmap_too_many_cores [of "[frame_a, frame_b]" 3 "[0]"]
  by simp

end
